theory Spec2Isabelle
  imports Main
begin

text \<open>
  The extension runtime and the shared context store of the hive-mind server: the plugin
  loader of \<^verbatim>\<open>plugin_service.py\<close> (manifest validation, class resolution, registration,
  dispatch, health checks) and the Redis context of \<^verbatim>\<open>redis_context.py\<close> (append, read,
  prune), with the error classes they raise. A method is a function of its arguments, of the
  clock reading where it takes one, and of the state it works on (the loader's two dicts, the
  plugins directory, the heap of dict objects that caller and plugin share, the context
  object, the Redis server); it returns the value or the fault raised, and the state after
  the call. Coroutines are run to completion, except where the interleaving of Redis
  commands is the subject.
\<close>

section \<open>Python values\<close>

text \<open>
  JSON documents as \<^verbatim>\<open>json.load\<close> returns them and as the \<^verbatim>\<open>Dict[str, Any]\<close> values of
  the code hold them. A dict is an association list in insertion order with distinct keys.
  Numbers are restricted to integers.
\<close>

datatype json =
    JNull
  | JBool bool
  | JNum int
  | JStr string
  | JArr "json list"
  | JObj "(string \<times> json) list"

type_synonym pydict = "(string \<times> json) list"

text \<open>\<^verbatim>\<open>d[k] = v\<close>: an existing key keeps its position, a new key goes to the end.\<close>

fun dict_set :: "'k \<Rightarrow> 'v \<Rightarrow> ('k \<times> 'v) list \<Rightarrow> ('k \<times> 'v) list" where
  "dict_set k v [] = [(k, v)]"
| "dict_set k v ((k', v') # d) =
     (if k = k' then (k, v) # d else (k', v') # dict_set k v d)"

text \<open>\<^verbatim>\<open>{**d, **e}\<close>\<close>

definition dict_merge :: "('k \<times> 'v) list \<Rightarrow> ('k \<times> 'v) list \<Rightarrow> ('k \<times> 'v) list" where
  "dict_merge d e = foldl (\<lambda>acc kv. dict_set (fst kv) (snd kv) acc) d e"

text \<open>\<^verbatim>\<open>context or {}\<close>\<close>

definition or_empty :: "('k \<times> 'v) list option \<Rightarrow> ('k \<times> 'v) list" where
  "or_empty c = (case c of None \<Rightarrow> [] | Some d \<Rightarrow> d)"

text \<open>Truth value of a JSON value under \<^verbatim>\<open>not\<close>, \<^verbatim>\<open>or\<close> and \<^verbatim>\<open>if\<close>.\<close>

fun truthy :: "json \<Rightarrow> bool" where
  "truthy JNull = False"
| "truthy (JBool b) = b"
| "truthy (JNum n) = (n \<noteq> 0)"
| "truthy (JStr s) = (s \<noteq> [])"
| "truthy (JArr xs) = (xs \<noteq> [])"
| "truthy (JObj d) = (d \<noteq> [])"

fun starts_with :: "string \<Rightarrow> string \<Rightarrow> bool" where
  "starts_with s [] = True"
| "starts_with [] (c # p) = False"
| "starts_with (a # s) (c # p) = (a = c \<and> starts_with s p)"

text \<open>\<^verbatim>\<open>sub in s\<close> on two strings.\<close>

fun str_contains :: "string \<Rightarrow> string \<Rightarrow> bool" where
  "str_contains [] sub = (sub = [])"
| "str_contains (a # s) sub = (starts_with (a # s) sub \<or> str_contains s sub)"

definition quoted :: "string \<Rightarrow> string" where
  "quoted s = [CHR 0x27] @ s @ [CHR 0x27]"

section \<open>Error taxonomy (shared/errors)\<close>

text \<open>
  Dict objects live in a heap, by address: a caller and a callee that hold the same address
  hold the same object, and a change made through one shows through the other.
\<close>

type_synonym heap = "nat \<Rightarrow> pydict"


text \<open>
  A value of an error context: a value of its own, or a dict object of the caller, held by
  reference.
\<close>

datatype context_value = Immediate json | Reference nat


text \<open>
  The dataclass \<^verbatim>\<open>BaseError\<close>; the timestamp is a point on the integer time line. The
  values of the context are of type \<open>'v\<close>: JSON values in the errors that hold strings and
  numbers only, context values in \<^verbatim>\<open>PluginExecutionError\<close>, which holds the params dict.
\<close>

record 'v BaseError =
  message :: string
  error_code :: string
  timestamp :: int
  "context" :: "(string \<times> 'v) list option"

text \<open>
  Everything a Python callee can raise, as far as the handlers of this code tell it apart:
  the classified errors of \<^verbatim>\<open>shared.errors\<close>, any other subclass of \<^verbatim>\<open>Exception\<close>
  (class name and \<^verbatim>\<open>str(e)\<close>), and the classes that derive from \<^verbatim>\<open>BaseException\<close>
  without deriving from \<^verbatim>\<open>Exception\<close> (\<^verbatim>\<open>SystemExit\<close>, \<^verbatim>\<open>KeyboardInterrupt\<close>,
  \<^verbatim>\<open>GeneratorExit\<close>, \<^verbatim>\<open>asyncio.CancelledError\<close> from Python 3.8 on).
\<close>

datatype exn =
    ConfigurationError "json BaseError"
  | PluginExecutionError "context_value BaseError"
  | ContextError "json BaseError"
  | RedisError "json BaseError"
  | OtherException string string
  | NonException string string

text \<open>\<^verbatim>\<open>isinstance(e, Exception)\<close>: what an \<^verbatim>\<open>except Exception\<close> clause catches.\<close>

fun isinstance_Exception :: "exn \<Rightarrow> bool" where
  "isinstance_Exception (NonException n s) = False"
| "isinstance_Exception e = True"

fun isinstance_ConfigurationError :: "exn \<Rightarrow> bool" where
  "isinstance_ConfigurationError (ConfigurationError b) = True"
| "isinstance_ConfigurationError e = False"

fun isinstance_RedisError :: "exn \<Rightarrow> bool" where
  "isinstance_RedisError (RedisError b) = True"
| "isinstance_RedisError e = False"


text \<open>\<^verbatim>\<open>BaseError.__str__\<close>\<close>

definition BaseError_str :: "'v BaseError \<Rightarrow> string" where
  "BaseError_str b = ''['' @ error_code b @ ''] '' @ message b"

text \<open>\<^verbatim>\<open>type(e).__name__\<close>\<close>

fun type_name :: "exn \<Rightarrow> string" where
  "type_name (ConfigurationError b) = ''ConfigurationError''"
| "type_name (PluginExecutionError b) = ''PluginExecutionError''"
| "type_name (ContextError b) = ''ContextError''"
| "type_name (RedisError b) = ''RedisError''"
| "type_name (OtherException n s) = n"
| "type_name (NonException n s) = n"

text \<open>\<^verbatim>\<open>str(e)\<close>\<close>

fun py_str :: "exn \<Rightarrow> string" where
  "py_str (ConfigurationError b) = BaseError_str b"
| "py_str (PluginExecutionError b) = BaseError_str b"
| "py_str (ContextError b) = BaseError_str b"
| "py_str (RedisError b) = BaseError_str b"
| "py_str (OtherException n s) = s"
| "py_str (NonException n s) = s"



definition new_ConfigurationError :: "string \<Rightarrow> string \<Rightarrow> pydict option \<Rightarrow> int \<Rightarrow> exn" where
  "new_ConfigurationError field msg ctx now =
     ConfigurationError
       \<lparr>message = ''Configuration error for '' @ quoted field @ '': '' @ msg,
        error_code = ''CONFIGURATION_ERROR'',
        timestamp = now,
        context = Some (dict_merge [(''field'', JStr field)] (or_empty ctx))\<rparr>"

definition new_ContextError :: "string \<Rightarrow> pydict option \<Rightarrow> int \<Rightarrow> exn" where
  "new_ContextError msg ctx now =
     ContextError
       \<lparr>message = msg, error_code = ''CONTEXT_ERROR'', timestamp = now, context = ctx\<rparr>"

definition new_RedisError :: "string \<Rightarrow> string \<Rightarrow> pydict option \<Rightarrow> int \<Rightarrow> exn" where
  "new_RedisError msg operation ctx now =
     RedisError
       \<lparr>message = ''Redis operation '' @ quoted operation @ '' failed: '' @ msg,
        error_code = ''REDIS_ERROR'',
        timestamp = now,
        context = Some (dict_merge [(''operation'', JStr operation)] (or_empty ctx))\<rparr>"

section \<open>Plugin interface and plugin directories\<close>

text \<open>
  A live plugin object, by what its methods do when called: \<^verbatim>\<open>execute\<close> receives the
  params dict by reference (its address in the heap), may change it, and returns a dict or
  raises; the hooks return or raise (\<open>None\<close>: returned); \<^verbatim>\<open>health_check\<close> returns a
  boolean or raises.
\<close>

record PluginInterface =
  execute :: "string \<Rightarrow> nat \<Rightarrow> heap \<Rightarrow> (exn + pydict) \<times> heap"
  get_prompt_context :: string
  on_load :: "exn option"
  on_unload :: "exn option"
  health_check :: "exn + bool"

text \<open>
  What \<^verbatim>\<open>getattr(module, attr_name)\<close> finds: something that is not a class, a class
  unrelated to the interface, \<^verbatim>\<open>PluginInterface\<close> itself (imported by the handler), or
  a proper subclass, given by what calling it yields (an instance, or the fault of an
  abstract class or a failing \<^verbatim>\<open>__init__\<close>).
\<close>

datatype module_attr =
    NotAType
  | UnrelatedType
  | PluginInterfaceItself
  | PluginSubclass "exn + PluginInterface"

text \<open>
  An existing file \<^verbatim>\<open>handler.py\<close>: with no import spec or loader; raising while it is
  executed; or executed into a module, given by its attributes in the order of
  \<^verbatim>\<open>dir(module)\<close> (sorted by name).
\<close>

datatype handler_file =
    SpecUnavailable
  | ExecModuleRaises exn
  | HandlerModule "(string \<times> module_attr) list"

text \<open>
  The file \<^verbatim>\<open>plugin.json\<close>: absent; present and unreadable (the fault of \<^verbatim>\<open>open\<close> or
  of the decoding, which is no \<^verbatim>\<open>JSONDecodeError\<close>); present and not a JSON document
  (with the text of the \<^verbatim>\<open>JSONDecodeError\<close>); or present and parsed by \<^verbatim>\<open>json.load\<close>.
\<close>

datatype manifest_file =
    ManifestMissing
  | ManifestUnreadable exn
  | ManifestInvalidJSON string
  | ManifestDocument json

text \<open>A plugin directory; \<open>handler_py\<close> is \<open>None\<close> when the file does not exist.\<close>

record plugin_directory =
  plugin_json :: manifest_file
  handler_py :: "handler_file option"

text \<open>
  The directory \<^verbatim>\<open>plugins_dir\<close>: its path and its entries; an entry that is not a
  directory is \<open>None\<close>.
\<close>

record plugins_dir =
  dir_path :: string
  dir_entries :: "(string \<times> plugin_directory option) list"

section \<open>PluginLoader (core/application/services/plugin_service.py)\<close>

record PluginLoader =
  loaded_plugins :: "(string \<times> PluginInterface) list"
  plugin_manifests :: "(string \<times> json) list"

definition required_fields :: "string list" where
  "required_fields = [''name'', ''version'', ''description'', ''intents'']"

text \<open>
  \<^verbatim>\<open>field in manifest\<close> on whatever \<^verbatim>\<open>json.load\<close> returned: key membership on a dict,
  element membership on a list, substring on a string, \<^verbatim>\<open>TypeError\<close> otherwise.
\<close>

fun py_in :: "string \<Rightarrow> json \<Rightarrow> exn + bool" where
  "py_in field (JObj d) = Inr (field \<in> set (map fst d))"
| "py_in field (JArr xs) = Inr (JStr field \<in> set xs)"
| "py_in field (JStr s) = Inr (str_contains s field)"
| "py_in field j = Inl (OtherException ''TypeError'' ''argument is not iterable'')"

text \<open>The loop over \<^verbatim>\<open>required_fields\<close> of \<^verbatim>\<open>_load_manifest\<close>; \<open>None\<close>: no raise.\<close>

fun check_required_fields :: "string list \<Rightarrow> json \<Rightarrow> string \<Rightarrow> int \<Rightarrow> exn option" where
  "check_required_fields [] manifest manifest_path now = None"
| "check_required_fields (field # rest) manifest manifest_path now =
     (case py_in field manifest of
        Inl e \<Rightarrow> Some e
      | Inr present \<Rightarrow>
          if \<not> present
          then Some (new_ConfigurationError field
                 (''Missing required field '' @ quoted field @ '' in '' @ manifest_path) None now)
          else check_required_fields rest manifest manifest_path now)"

text \<open>\<^verbatim>\<open>PluginLoader._load_manifest\<close>\<close>

definition load_manifest :: "string \<Rightarrow> plugin_directory \<Rightarrow> int \<Rightarrow> exn + json" where
  "load_manifest plugin_path pd now =
     (let manifest_path = plugin_path @ ''/plugin.json'' in
      case plugin_json pd of
        ManifestMissing \<Rightarrow>
          Inl (new_ConfigurationError ''plugin.json''
                 (''Manifest not found for plugin at '' @ plugin_path) None now)
      | ManifestUnreadable e \<Rightarrow> Inl e
      | ManifestInvalidJSON err \<Rightarrow>
          Inl (new_ConfigurationError ''plugin.json''
                 (''Invalid JSON in '' @ manifest_path @ '': '' @ err) None now)
      | ManifestDocument manifest \<Rightarrow>
          (case check_required_fields required_fields manifest manifest_path now of
             Some e \<Rightarrow> Inl e
           | None \<Rightarrow> Inr manifest))"

text \<open>
  The search for the plugin class in \<^verbatim>\<open>_load_plugin_module\<close>: the first attribute that
  is a class, a subclass of \<^verbatim>\<open>PluginInterface\<close> and not \<^verbatim>\<open>PluginInterface\<close> itself;
  the loop breaks there.
\<close>

fun find_plugin_class :: "(string \<times> module_attr) list \<Rightarrow> (exn + PluginInterface) option" where
  "find_plugin_class [] = None"
| "find_plugin_class ((attr_name, PluginSubclass cls) # attrs) = Some cls"
| "find_plugin_class ((attr_name, attr) # attrs) = find_plugin_class attrs"

text \<open>The body of the \<^verbatim>\<open>try\<close> block of \<^verbatim>\<open>_load_plugin_module\<close>.\<close>

definition load_plugin_module_body ::
  "string \<Rightarrow> handler_file \<Rightarrow> int \<Rightarrow> exn + PluginInterface" where
  "load_plugin_module_body handler_path h now =
     (case h of
        SpecUnavailable \<Rightarrow>
          Inl (new_ConfigurationError ''handler.py''
                 (''Failed to load spec for '' @ handler_path) None now)
      | ExecModuleRaises e \<Rightarrow> Inl e
      | HandlerModule attrs \<Rightarrow>
          (case find_plugin_class attrs of
             None \<Rightarrow>
               Inl (new_ConfigurationError ''handler.py''
                      (''No PluginInterface subclass found in '' @ handler_path) None now)
           | Some plugin_class \<Rightarrow> plugin_class))"

text \<open>
  \<^verbatim>\<open>PluginLoader._load_plugin_module\<close>: the existence check, the \<^verbatim>\<open>try\<close> block, and the
  \<^verbatim>\<open>except Exception\<close> handler, which lets a \<^verbatim>\<open>ConfigurationError\<close> through and wraps
  every other \<^verbatim>\<open>Exception\<close>.
\<close>

definition load_plugin_module ::
  "string \<Rightarrow> string \<Rightarrow> plugin_directory \<Rightarrow> int \<Rightarrow> exn + PluginInterface" where
  "load_plugin_module plugin_path plugin_name pd now =
     (let handler_path = plugin_path @ ''/handler.py'' in
      case handler_py pd of
        None \<Rightarrow>
          Inl (new_ConfigurationError ''handler.py''
                 (''Handler not found for plugin '' @ plugin_name) None now)
      | Some h \<Rightarrow>
          (case load_plugin_module_body handler_path h now of
             Inr plugin \<Rightarrow> Inr plugin
           | Inl e \<Rightarrow>
               if isinstance_Exception e
               then (if isinstance_ConfigurationError e then Inl e
                     else Inl (new_ConfigurationError ''handler.py''
                            (''Failed to load plugin '' @ plugin_name @ '': '' @ py_str e)
                            (Some [(''error_type'', JStr (type_name e))]) now))
               else Inl e))"

text \<open>\<^verbatim>\<open>manifest.get("enabled", True)\<close>; a manifest that is not a dict has no \<^verbatim>\<open>get\<close>.\<close>

fun manifest_get_enabled :: "json \<Rightarrow> exn + json" where
  "manifest_get_enabled (JObj d) =
     (case map_of d ''enabled'' of None \<Rightarrow> Inr (JBool True) | Some v \<Rightarrow> Inr v)"
| "manifest_get_enabled j =
     Inl (OtherException ''AttributeError'' ''object has no attribute get'')"

text \<open>The two assignments that end \<^verbatim>\<open>load_plugin\<close>.\<close>

definition register_plugin :: "string \<Rightarrow> PluginInterface \<Rightarrow> json \<Rightarrow> PluginLoader \<Rightarrow> PluginLoader" where
  "register_plugin plugin_name plugin manifest self =
     self\<lparr>loaded_plugins := dict_set plugin_name plugin (loaded_plugins self),
          plugin_manifests := dict_set plugin_name manifest (plugin_manifests self)\<rparr>"

text \<open>
  \<^verbatim>\<open>PluginLoader.load_plugin\<close>: the fault raised (\<open>None\<close> when the call returns) and the
  loader after the call.
\<close>

definition load_plugin ::
  "plugins_dir \<Rightarrow> int \<Rightarrow> string \<Rightarrow> PluginLoader \<Rightarrow> exn option \<times> PluginLoader" where
  "load_plugin fs now plugin_name self =
     (let plugin_path = dir_path fs @ ''/'' @ plugin_name in
      case map_of (dir_entries fs) plugin_name of
        None \<Rightarrow>
          (Some (new_ConfigurationError ''plugin_directory''
                   (''Plugin directory not found: '' @ plugin_path) None now), self)
      | Some None \<Rightarrow>
          (Some (new_ConfigurationError ''plugin_directory''
                   (''Plugin directory not found: '' @ plugin_path) None now), self)
      | Some (Some pd) \<Rightarrow>
          (case load_manifest plugin_path pd now of
             Inl e \<Rightarrow> (Some e, self)
           | Inr manifest \<Rightarrow>
               (case manifest_get_enabled manifest of
                  Inl e \<Rightarrow> (Some e, self)
                | Inr enabled \<Rightarrow>
                    if \<not> truthy enabled then (None, self)
                    else
                      (case load_plugin_module plugin_path plugin_name pd now of
                         Inl e \<Rightarrow> (Some e, self)
                       | Inr plugin \<Rightarrow>
                           (case on_load plugin of
                              Some e \<Rightarrow> (Some e, self)
                            | None \<Rightarrow>
                                (None, register_plugin plugin_name plugin manifest self))))))"



text \<open>
  The loop of \<^verbatim>\<open>PluginLoader.health_check_all\<close> over \<^verbatim>\<open>loaded_plugins.items()\<close>, with
  \<^verbatim>\<open>health_status\<close> as accumulator.
\<close>

fun health_check_loop ::
  "(string \<times> PluginInterface) list \<Rightarrow> (string \<times> bool) list \<Rightarrow> exn + (string \<times> bool) list" where
  "health_check_loop [] health_status = Inr health_status"
| "health_check_loop ((plugin_name, plugin) # rest) health_status =
     (case health_check plugin of
        Inr is_healthy \<Rightarrow> health_check_loop rest (dict_set plugin_name is_healthy health_status)
      | Inl e \<Rightarrow>
          if isinstance_Exception e
          then health_check_loop rest (dict_set plugin_name False health_status)
          else Inl e)"

text \<open>\<^verbatim>\<open>PluginLoader.health_check_all\<close>\<close>

definition health_check_all :: "PluginLoader \<Rightarrow> exn + (string \<times> bool) list" where
  "health_check_all self = health_check_loop (loaded_plugins self) []"

section \<open>Dates and times\<close>

text \<open>
  A \<^verbatim>\<open>datetime\<close>: naive (no time zone, as \<^verbatim>\<open>datetime.utcnow()\<close> gives) or aware (with a
  time zone). The number is its instant in microseconds since 1970-01-01T00:00:00, a naive
  one read as UTC. The clock of a call is such a number too.
\<close>

datatype datetime = Naive int | Aware int

fun instant :: "datetime \<Rightarrow> int" where
  "instant (Naive t) = t"
| "instant (Aware t) = t"

fun same_kind :: "datetime \<Rightarrow> datetime \<Rightarrow> bool" where
  "same_kind (Naive a) (Naive b) = True"
| "same_kind (Aware a) (Aware b) = True"
| "same_kind a b = False"

text \<open>
  \<^verbatim>\<open>a < b\<close> and \<^verbatim>\<open>a >= b\<close> on datetimes: Python raises \<^verbatim>\<open>TypeError\<close> when one is naive
  and the other aware.
\<close>

definition datetime_lt :: "datetime \<Rightarrow> datetime \<Rightarrow> exn + bool" where
  "datetime_lt a b =
     (if same_kind a b then Inr (instant a < instant b)
      else Inl (OtherException ''TypeError''
                  ''can't compare offset-naive and offset-aware datetimes''))"

definition datetime_ge :: "datetime \<Rightarrow> datetime \<Rightarrow> exn + bool" where
  "datetime_ge a b =
     (if same_kind a b then Inr (instant b \<le> instant a)
      else Inl (OtherException ''TypeError''
                  ''can't compare offset-naive and offset-aware datetimes''))"

section \<open>Messages (core/domain/interfaces/context_interface.py)\<close>

text \<open>
  The functions of the Python standard library that the context store calls, taken as
  parameters: \<^verbatim>\<open>json.loads\<close> (\<open>None\<close>: \<^verbatim>\<open>JSONDecodeError\<close>), \<^verbatim>\<open>json.dumps\<close>,
  \<^verbatim>\<open>datetime.fromisoformat\<close> (\<open>None\<close>: \<^verbatim>\<open>ValueError\<close>) and \<^verbatim>\<open>datetime.isoformat\<close>.
\<close>

record pylib =
  json_loads :: "string \<Rightarrow> json option"
  json_dumps :: "json \<Rightarrow> string"
  fromisoformat :: "string \<Rightarrow> datetime option"
  isoformat :: "datetime \<Rightarrow> string"

text \<open>
  The dataclass \<^verbatim>\<open>Message\<close>. \<^verbatim>\<open>from_dict\<close> stores whatever the document holds, so the
  fields other than the timestamp are JSON values (\<open>JNull\<close> for \<^verbatim>\<open>None\<close>).
\<close>

record Message =
  role :: json
  content :: json
  timestamp :: datetime
  client_id :: json
  metadata :: json

text \<open>\<^verbatim>\<open>Message.to_dict\<close>\<close>

definition to_dict :: "pylib \<Rightarrow> Message \<Rightarrow> pydict" where
  "to_dict L self =
     [(''role'', role self),
      (''content'', content self),
      (''timestamp'', JStr (isoformat L (timestamp self))),
      (''client_id'', client_id self),
      (''metadata'', if truthy (metadata self) then metadata self else JObj [])]"

text \<open>\<^verbatim>\<open>data.get(key)\<close>\<close>

definition dict_get :: "pydict \<Rightarrow> string \<Rightarrow> json" where
  "dict_get d key = (case map_of d key of None \<Rightarrow> JNull | Some v \<Rightarrow> v)"

text \<open>
  \<^verbatim>\<open>Message.from_dict\<close>, the arguments evaluated in the order written: a subscript on a
  value that is not a dict raises \<^verbatim>\<open>TypeError\<close>, a missing key \<^verbatim>\<open>KeyError\<close>, a timestamp
  that is not a string \<^verbatim>\<open>TypeError\<close>, one that is not in ISO format \<^verbatim>\<open>ValueError\<close>.
\<close>

definition from_dict :: "pylib \<Rightarrow> json \<Rightarrow> exn + Message" where
  "from_dict L data =
     (case data of
        JObj d \<Rightarrow>
          (case map_of d ''role'' of
             None \<Rightarrow> Inl (OtherException ''KeyError'' (quoted ''role''))
           | Some r \<Rightarrow>
               (case map_of d ''content'' of
                  None \<Rightarrow> Inl (OtherException ''KeyError'' (quoted ''content''))
                | Some c \<Rightarrow>
                    (case map_of d ''timestamp'' of
                       None \<Rightarrow> Inl (OtherException ''KeyError'' (quoted ''timestamp''))
                     | Some (JStr s) \<Rightarrow>
                         (case fromisoformat L s of
                            None \<Rightarrow>
                              Inl (OtherException ''ValueError''
                                     (''Invalid isoformat string: '' @ quoted s))
                          | Some t \<Rightarrow>
                              Inr \<lparr>role = r, content = c, timestamp = t,
                                   client_id = dict_get d ''client_id'',
                                   metadata = dict_get d ''metadata''\<rparr>)
                     | Some other \<Rightarrow>
                         Inl (OtherException ''TypeError''
                                ''fromisoformat: argument must be str''))))
      | other \<Rightarrow> Inl (OtherException ''TypeError'' ''value does not take a string subscript''))"

section \<open>The Redis server and its client\<close>

text \<open>
  Well-formed UTF-8, on the values of the bytes: what the client's decoding of a reply
  accepts. A \<open>string\<close> is a sequence of bytes; a text of Python is the string of its UTF-8
  bytes.
\<close>

definition continuation :: "nat \<Rightarrow> bool" where
  "continuation b = (0x80 \<le> b \<and> b \<le> 0xBF)"

fun utf8_bytes :: "nat list \<Rightarrow> bool" where
  "utf8_bytes [] = True"
| "utf8_bytes (b # bs) =
     (if b < 0x80 then utf8_bytes bs
      else if 0xC2 \<le> b \<and> b \<le> 0xDF then
        (case bs of
           c # rest \<Rightarrow> continuation c \<and> utf8_bytes rest
         | other \<Rightarrow> False)
      else if 0xE0 \<le> b \<and> b \<le> 0xEF then
        (case bs of
           c # d # rest \<Rightarrow>
             (if b = 0xE0 then 0xA0 \<le> c \<and> c \<le> 0xBF
              else if b = 0xED then 0x80 \<le> c \<and> c \<le> 0x9F
              else continuation c)
             \<and> continuation d \<and> utf8_bytes rest
         | other \<Rightarrow> False)
      else if 0xF0 \<le> b \<and> b \<le> 0xF4 then
        (case bs of
           c # d # e # rest \<Rightarrow>
             (if b = 0xF0 then 0x90 \<le> c \<and> c \<le> 0xBF
              else if b = 0xF4 then 0x80 \<le> c \<and> c \<le> 0x8F
              else continuation c)
             \<and> continuation d \<and> continuation e \<and> utf8_bytes rest
         | other \<Rightarrow> False)
      else False)"

definition valid_utf8 :: "string \<Rightarrow> bool" where
  "valid_utf8 s = utf8_bytes (map of_char s)"

text \<open>
  The Redis key \<^verbatim>\<open>hivemind:context:messages\<close>: the list of byte strings it holds (empty
  when the key does not exist) and the instant at which it expires, if it has one.
\<close>

record redis_key =
  elements :: "string list"
  expire_at :: "int option"

definition no_key :: redis_key where
  "no_key = \<lparr>elements = [], expire_at = None\<rparr>"

text \<open>The key as a command finds it at time \<open>now\<close>: gone once its deadline has passed.\<close>

definition live :: "int \<Rightarrow> redis_key \<Rightarrow> redis_key" where
  "live now k =
     (case expire_at k of
        None \<Rightarrow> k
      | Some deadline \<Rightarrow> if deadline < now then no_key else k)"

text \<open>
  The commands the code sends, each atomic on the server: \<^verbatim>\<open>RPUSH\<close>, \<^verbatim>\<open>EXPIRE\<close> (which
  deletes the key when the time to live is zero or less), \<^verbatim>\<open>DEL\<close>, \<^verbatim>\<open>LRANGE 0 -1\<close> and
  \<^verbatim>\<open>LLEN\<close>.
\<close>

definition r_rpush :: "int \<Rightarrow> string list \<Rightarrow> redis_key \<Rightarrow> redis_key" where
  "r_rpush now vs k = (live now k)\<lparr>elements := elements (live now k) @ vs\<rparr>"

definition r_expire :: "int \<Rightarrow> int \<Rightarrow> redis_key \<Rightarrow> redis_key" where
  "r_expire now seconds k =
     (if elements (live now k) = [] then live now k
      else if seconds \<le> 0 then no_key
      else (live now k)\<lparr>expire_at := Some (now + seconds * 1000000)\<rparr>)"

definition r_delete :: "redis_key \<Rightarrow> redis_key" where
  "r_delete k = no_key"

definition r_lrange_all :: "int \<Rightarrow> redis_key \<Rightarrow> string list" where
  "r_lrange_all now k = elements (live now k)"

definition r_llen :: "int \<Rightarrow> redis_key \<Rightarrow> int" where
  "r_llen now k = int (length (elements (live now k)))"

text \<open>
  The server during a call: out of reach, every command raising the given fault, or in
  reach with the key.
\<close>

datatype RedisServer =
    Unreachable exn
  | Connected redis_key

text \<open>
  The commands as the client of \<^verbatim>\<open>redis.asyncio\<close> runs them. It was made with
  \<^verbatim>\<open>decode_responses=True\<close>: the reply of \<^verbatim>\<open>LRANGE\<close> is decoded as UTF-8, and an element
  that is not well-formed UTF-8 makes the call raise \<^verbatim>\<open>UnicodeDecodeError\<close>.
\<close>

definition client_ping :: "RedisServer \<Rightarrow> exn option" where
  "client_ping srv = (case srv of Unreachable e \<Rightarrow> Some e | Connected k \<Rightarrow> None)"

definition client_lrange :: "int \<Rightarrow> RedisServer \<Rightarrow> exn + string list" where
  "client_lrange now srv =
     (case srv of
        Unreachable e \<Rightarrow> Inl e
      | Connected k \<Rightarrow>
          if list_all valid_utf8 (r_lrange_all now k) then Inr (r_lrange_all now k)
          else Inl (OtherException ''UnicodeDecodeError''
                      ''utf-8 codec can't decode byte: invalid start byte''))"

definition client_rpush :: "int \<Rightarrow> string list \<Rightarrow> RedisServer \<Rightarrow> exn + RedisServer" where
  "client_rpush now vs srv =
     (case srv of
        Unreachable e \<Rightarrow> Inl e
      | Connected k \<Rightarrow> Inr (Connected (r_rpush now vs k)))"

definition client_expire :: "int \<Rightarrow> int \<Rightarrow> RedisServer \<Rightarrow> exn + RedisServer" where
  "client_expire now seconds srv =
     (case srv of
        Unreachable e \<Rightarrow> Inl e
      | Connected k \<Rightarrow> Inr (Connected (r_expire now seconds k)))"

definition client_delete :: "RedisServer \<Rightarrow> exn + RedisServer" where
  "client_delete srv =
     (case srv of
        Unreachable e \<Rightarrow> Inl e
      | Connected k \<Rightarrow> Inr (Connected (r_delete k)))"

section \<open>RedisContext (core/infrastructure/redis/redis_context.py)\<close>

text \<open>
  The context object: its URL, its time to live in seconds, and whether \<^verbatim>\<open>self._redis\<close>
  holds a client.
\<close>

record RedisContext =
  redis_url :: string
  ttl_seconds :: int
  has_client :: bool

text \<open>
  What a method call leaves: the value returned or the fault raised, the context object
  and the server after the call. A call takes one reading of the clock, \<open>now\<close>: its
  commands reach the server at that instant and its \<^verbatim>\<open>datetime.utcnow()\<close> gives it.
\<close>

record 'a outcome =
  returned :: "exn + 'a"
  self_after :: RedisContext
  server_after :: RedisServer

text \<open>
  \<^verbatim>\<open>RedisContext._get_redis\<close>: the fault raised (\<open>None\<close> when the client is returned) and
  the context after the call. With a client at hand nothing is sent. Otherwise
  \<^verbatim>\<open>redis.from_url\<close> makes a client without connecting and the assignment to
  \<^verbatim>\<open>self._redis\<close> is done before the ping, so the client stays when the ping raises.
\<close>

definition get_redis :: "RedisContext \<Rightarrow> int \<Rightarrow> RedisServer \<Rightarrow> exn option \<times> RedisContext" where
  "get_redis self now srv =
     (if has_client self then (None, self)
      else
        (case client_ping srv of
           None \<Rightarrow> (None, self\<lparr>has_client := True\<rparr>)
         | Some e \<Rightarrow>
             (if isinstance_Exception e
              then Some (new_RedisError (''Failed to connect to Redis: '' @ py_str e) ''connect''
                           (Some [(''redis_url'', JStr (redis_url self))]) now)
              else Some e,
              self\<lparr>has_client := True\<rparr>)))"

text \<open>\<^verbatim>\<open>json.loads\<close> followed by \<^verbatim>\<open>Message.from_dict\<close> on one stored entry.\<close>

definition parse_message :: "pylib \<Rightarrow> string \<Rightarrow> exn + Message" where
  "parse_message L msg_json =
     (case json_loads L msg_json of
        None \<Rightarrow> Inl (OtherException ''JSONDecodeError'' ''Expecting value'')
      | Some msg_dict \<Rightarrow> from_dict L msg_dict)"

text \<open>
  The loop of \<^verbatim>\<open>get_messages\<close> over the decoded entries, with \<^verbatim>\<open>messages\<close> as
  accumulator. The inner \<^verbatim>\<open>try\<close> encloses the parse and the comparison with \<open>since\<close>;
  its \<^verbatim>\<open>except Exception\<close> skips the entry.
\<close>

fun parse_messages ::
  "pylib \<Rightarrow> datetime option \<Rightarrow> string list \<Rightarrow> Message list \<Rightarrow> exn + Message list" where
  "parse_messages L since [] messages = Inr messages"
| "parse_messages L since (msg_json # rest) messages =
     (case parse_message L msg_json of
        Inl e \<Rightarrow>
          if isinstance_Exception e then parse_messages L since rest messages else Inl e
      | Inr msg \<Rightarrow>
          (case since of
             None \<Rightarrow> parse_messages L since rest (messages @ [msg])
           | Some s \<Rightarrow>
               (case datetime_lt (timestamp msg) s of
                  Inl e \<Rightarrow>
                    if isinstance_Exception e then parse_messages L since rest messages
                    else Inl e
                | Inr is_earlier \<Rightarrow>
                    if is_earlier then parse_messages L since rest messages
                    else parse_messages L since rest (messages @ [msg]))))"

text \<open>\<^verbatim>\<open>if limit and limit > 0: messages = messages[-limit:]\<close>\<close>

definition apply_limit :: "int option \<Rightarrow> 'a list \<Rightarrow> 'a list" where
  "apply_limit limit messages =
     (case limit of
        None \<Rightarrow> messages
      | Some n \<Rightarrow>
          if n \<noteq> 0 \<and> n > 0 then drop (length messages - nat n) messages else messages)"

definition limit_json :: "int option \<Rightarrow> json" where
  "limit_json limit = (case limit of None \<Rightarrow> JNull | Some n \<Rightarrow> JNum n)"

text \<open>The outer handlers of \<^verbatim>\<open>get_messages\<close>.\<close>

definition get_messages_except :: "int option \<Rightarrow> int \<Rightarrow> exn \<Rightarrow> exn" where
  "get_messages_except limit now e =
     (if isinstance_RedisError e then e
      else if isinstance_Exception e
      then new_ContextError (''Failed to get messages: '' @ py_str e)
             (Some [(''limit'', limit_json limit), (''error_type'', JStr (type_name e))]) now
      else e)"

text \<open>\<^verbatim>\<open>RedisContext.get_messages\<close>\<close>

definition get_messages ::
  "RedisContext \<Rightarrow> pylib \<Rightarrow> int \<Rightarrow> int option \<Rightarrow> datetime option \<Rightarrow> RedisServer
   \<Rightarrow> Message list outcome" where
  "get_messages self L now limit since srv =
     (case get_redis self now srv of
        (Some e, self') \<Rightarrow>
          \<lparr>returned = Inl (get_messages_except limit now e),
           self_after = self', server_after = srv\<rparr>
      | (None, self') \<Rightarrow>
          (case client_lrange now srv of
             Inl e \<Rightarrow>
               \<lparr>returned = Inl (get_messages_except limit now e),
                self_after = self', server_after = srv\<rparr>
           | Inr messages_json \<Rightarrow>
               (case parse_messages L since messages_json [] of
                  Inl e \<Rightarrow>
                    \<lparr>returned = Inl (get_messages_except limit now e),
                     self_after = self', server_after = srv\<rparr>
                | Inr messages \<Rightarrow>
                    \<lparr>returned = Inr (apply_limit limit messages),
                     self_after = self', server_after = srv\<rparr>)))"

definition optional_str :: "string option \<Rightarrow> json" where
  "optional_str s = (case s of None \<Rightarrow> JNull | Some x \<Rightarrow> JStr x)"

definition optional_dict :: "pydict option \<Rightarrow> json" where
  "optional_dict d = (case d of None \<Rightarrow> JNull | Some x \<Rightarrow> JObj x)"

text \<open>
  The call \<^verbatim>\<open>Message(role=..., content=..., timestamp=datetime.utcnow(), ...)\<close> of
  \<^verbatim>\<open>add_message\<close>, whose arguments are strings, an optional string and an optional dict;
  \<open>now\<close> is the reading of the clock.
\<close>

definition new_Message ::
  "string \<Rightarrow> string \<Rightarrow> int \<Rightarrow> string option \<Rightarrow> pydict option \<Rightarrow> Message" where
  "new_Message role_arg content_arg now client_id_arg metadata_arg =
     \<lparr>role = JStr role_arg, content = JStr content_arg, timestamp = Naive now,
      client_id = optional_str client_id_arg,
      metadata = optional_dict metadata_arg\<rparr>"

text \<open>The outer handlers of \<^verbatim>\<open>add_message\<close>.\<close>

definition add_message_except :: "string \<Rightarrow> string \<Rightarrow> int \<Rightarrow> exn \<Rightarrow> exn" where
  "add_message_except role_arg content_arg now e =
     (if isinstance_RedisError e then e
      else if isinstance_Exception e
      then new_ContextError (''Failed to add message: '' @ py_str e)
             (Some [(''role'', JStr role_arg),
                    (''content_length'', JNum (int (length content_arg))),
                    (''error_type'', JStr (type_name e))]) now
      else e)"

text \<open>\<^verbatim>\<open>RedisContext.add_message\<close>\<close>

definition add_message ::
  "RedisContext \<Rightarrow> pylib \<Rightarrow> int \<Rightarrow> string \<Rightarrow> string \<Rightarrow> string option \<Rightarrow> pydict option
   \<Rightarrow> RedisServer \<Rightarrow> unit outcome" where
  "add_message self L now role_arg content_arg client_id_arg metadata_arg srv =
     (case get_redis self now srv of
        (Some e, self') \<Rightarrow>
          \<lparr>returned = Inl (add_message_except role_arg content_arg now e),
           self_after = self', server_after = srv\<rparr>
      | (None, self') \<Rightarrow>
          (let msg = new_Message role_arg content_arg now client_id_arg metadata_arg;
               message_json = json_dumps L (JObj (to_dict L msg))
           in case client_rpush now [message_json] srv of
                Inl e \<Rightarrow>
                  \<lparr>returned = Inl (add_message_except role_arg content_arg now e),
                   self_after = self', server_after = srv\<rparr>
              | Inr srv1 \<Rightarrow>
                  (case client_expire now (ttl_seconds self) srv1 of
                     Inl e \<Rightarrow>
                       \<lparr>returned = Inl (add_message_except role_arg content_arg now e),
                        self_after = self', server_after = srv1\<rparr>
                   | Inr srv2 \<Rightarrow>
                       \<lparr>returned = Inr (), self_after = self', server_after = srv2\<rparr>)))"

text \<open>
  What the \<^verbatim>\<open>add_message\<close> calls of other clients do to the server while a call of this
  client is suspended at an \<^verbatim>\<open>await\<close>: each pushes its entry and renews the time to live.
\<close>

definition concurrent_appends :: "RedisContext \<Rightarrow> int \<Rightarrow> string list \<Rightarrow> RedisServer \<Rightarrow> RedisServer" where
  "concurrent_appends self now entries srv =
     (case srv of
        Unreachable e \<Rightarrow> srv
      | Connected r \<Rightarrow>
          Connected (foldl (\<lambda>k entry. r_expire now (ttl_seconds self) (r_rpush now [entry] k))
                       r entries))"

text \<open>
  The comprehension \<^verbatim>\<open>[msg for msg in messages if msg.timestamp >= before]\<close> of
  \<^verbatim>\<open>prune_old_messages\<close>, which raises where a comparison does.
\<close>

fun messages_not_before :: "datetime \<Rightarrow> Message list \<Rightarrow> exn + Message list" where
  "messages_not_before before [] = Inr []"
| "messages_not_before before (msg # rest) =
     (case datetime_ge (timestamp msg) before of
        Inl e \<Rightarrow> Inl e
      | Inr keep \<Rightarrow>
          (case messages_not_before before rest of
             Inl e \<Rightarrow> Inl e
           | Inr kept \<Rightarrow> Inr (if keep then msg # kept else kept)))"

text \<open>The outer handlers of \<^verbatim>\<open>prune_old_messages\<close>.\<close>

definition prune_old_messages_except :: "pylib \<Rightarrow> datetime \<Rightarrow> int \<Rightarrow> exn \<Rightarrow> exn" where
  "prune_old_messages_except L before now e =
     (if isinstance_RedisError e then e
      else (case e of
        ContextError b \<Rightarrow> e
      | other \<Rightarrow>
          if isinstance_Exception e
          then new_ContextError (''Failed to prune old messages: '' @ py_str e)
                 (Some [(''before'', JStr (isoformat L before)),
                        (''error_type'', JStr (type_name e))]) now
          else e))"

text \<open>
  \<^verbatim>\<open>RedisContext.prune_old_messages\<close>, command by command: \<^verbatim>\<open>_get_redis\<close>, the read of the
  whole list (\<^verbatim>\<open>get_messages\<close>), the comprehension, \<^verbatim>\<open>DEL\<close>, then \<^verbatim>\<open>RPUSH\<close> and
  \<^verbatim>\<open>EXPIRE\<close> when something is kept. The call is suspended at each command;
  \<open>after_read\<close> are the entries other clients append between the read and \<^verbatim>\<open>DEL\<close>,
  \<open>after_delete\<close> those appended between \<^verbatim>\<open>DEL\<close> and \<^verbatim>\<open>RPUSH\<close>, \<open>after_push\<close> those
  appended between \<^verbatim>\<open>RPUSH\<close> and \<^verbatim>\<open>EXPIRE\<close>. A fault leaves the server as the commands
  sent so far have made it.
\<close>

definition prune_old_messages_interleaved ::
  "RedisContext \<Rightarrow> pylib \<Rightarrow> int \<Rightarrow> datetime \<Rightarrow> string list \<Rightarrow> string list \<Rightarrow> string list
   \<Rightarrow> RedisServer \<Rightarrow> int outcome" where
  "prune_old_messages_interleaved self L now before after_read after_delete after_push srv =
     (case get_redis self now srv of
        (Some e, self1) \<Rightarrow>
          \<lparr>returned = Inl (prune_old_messages_except L before now e),
           self_after = self1, server_after = srv\<rparr>
      | (None, self1) \<Rightarrow>
          (case returned (get_messages self1 L now None None srv) of
             Inl e \<Rightarrow>
               \<lparr>returned = Inl (prune_old_messages_except L before now e),
                self_after = self1, server_after = srv\<rparr>
           | Inr messages \<Rightarrow>
               (case messages_not_before before messages of
                  Inl e \<Rightarrow>
                    \<lparr>returned = Inl (prune_old_messages_except L before now e),
                     self_after = self1, server_after = srv\<rparr>
                | Inr messages_to_keep \<Rightarrow>
                    (let srv1 = concurrent_appends self now after_read srv in
                     case client_delete srv1 of
                       Inl e \<Rightarrow>
                         \<lparr>returned = Inl (prune_old_messages_except L before now e),
                          self_after = self1, server_after = srv1\<rparr>
                     | Inr srv2 \<Rightarrow>
                         (let srv3 = concurrent_appends self now after_delete srv2;
                              deleted_count =
                                int (length messages) - int (length messages_to_keep)
                          in if messages_to_keep \<noteq> []
                             then
                               (case client_rpush now
                                       (map (\<lambda>msg. json_dumps L (JObj (to_dict L msg)))
                                          messages_to_keep) srv3 of
                                  Inl e \<Rightarrow>
                                    \<lparr>returned = Inl (prune_old_messages_except L before now e),
                                     self_after = self1, server_after = srv3\<rparr>
                                | Inr srv4 \<Rightarrow>
                                    (let srv5 = concurrent_appends self now after_push srv4 in
                                     case client_expire now (ttl_seconds self) srv5 of
                                       Inl e \<Rightarrow>
                                         \<lparr>returned =
                                            Inl (prune_old_messages_except L before now e),
                                          self_after = self1, server_after = srv5\<rparr>
                                     | Inr srv6 \<Rightarrow>
                                         \<lparr>returned = Inr deleted_count,
                                          self_after = self1, server_after = srv6\<rparr>))
                             else
                               \<lparr>returned = Inr deleted_count,
                                self_after = self1, server_after = srv3\<rparr>)))))"

text \<open>\<^verbatim>\<open>RedisContext.prune_old_messages\<close> with no other client writing meanwhile.\<close>

definition prune_old_messages ::
  "RedisContext \<Rightarrow> pylib \<Rightarrow> int \<Rightarrow> datetime \<Rightarrow> RedisServer \<Rightarrow> int outcome" where
  "prune_old_messages self L now before srv =
     prune_old_messages_interleaved self L now before [] [] [] srv"

section \<open>Example data\<close>

text \<open>
  Three plugins: one that works, one whose methods raise, one whose methods exit; none
  changes the params it is given.
\<close>

definition weather_plugin :: PluginInterface where
  "weather_plugin =
     \<lparr>execute = (\<lambda>intent params h.
                  (Inr [(''success'', JBool True), (''temperature'', JNum 8)], h)),
      get_prompt_context = ''weather'',
      on_load = None, on_unload = None,
      health_check = Inr True\<rparr>"

definition failing_plugin :: PluginInterface where
  "failing_plugin =
     \<lparr>execute = (\<lambda>intent params h. (Inl (OtherException ''ValueError'' ''bad date''), h)),
      get_prompt_context = ''calendar'',
      on_load = None, on_unload = None,
      health_check = Inl (OtherException ''RuntimeError'' ''no connection'')\<rparr>"

definition exiting_plugin :: PluginInterface where
  "exiting_plugin =
     \<lparr>execute = (\<lambda>intent params h. (Inl (NonException ''SystemExit'' ''1''), h)),
      get_prompt_context = ''exit'',
      on_load = None, on_unload = None,
      health_check = Inl (NonException ''SystemExit'' ''1'')\<rparr>"

definition weather_manifest :: json where
  "weather_manifest =
     JObj [(''name'', JStr ''weather''), (''version'', JStr ''1.0.0''),
           (''description'', JStr ''d''), (''intents'', JArr [JStr ''get_weather'']),
           (''enabled'', JBool True)]"

definition blank_manifest :: json where
  "blank_manifest =
     JObj [(''name'', JStr ''''), (''version'', JStr ''''),
           (''description'', JStr ''''), (''intents'', JArr [])]"

definition sample_loader :: PluginLoader where
  "sample_loader =
     \<lparr>loaded_plugins = [(''weather'', weather_plugin), (''calendar'', failing_plugin)],
      plugin_manifests = [(''weather'', weather_manifest), (''calendar'', weather_manifest)]\<rparr>"

definition exiting_loader :: PluginLoader where
  "exiting_loader =
     \<lparr>loaded_plugins = [(''exit'', exiting_plugin), (''weather'', weather_plugin)],
      plugin_manifests = [(''exit'', weather_manifest), (''weather'', weather_manifest)]\<rparr>"

definition empty_loader :: PluginLoader where
  "empty_loader = \<lparr>loaded_plugins = [], plugin_manifests = []\<rparr>"



text \<open>
  A plugins directory: a well-formed plugin, one whose manifest has the four fields all
  empty, one whose handler defines two plugin classes, one whose manifest lacks two fields,
  one whose handler defines no plugin class, and a plain file.
\<close>

definition weather_module :: "(string \<times> module_attr) list" where
  "weather_module =
     [(''PluginInterface'', PluginInterfaceItself),
      (''WeatherPlugin'', PluginSubclass (Inr weather_plugin)),
      (''__name__'', NotAType)]"

definition twins_module :: "(string \<times> module_attr) list" where
  "twins_module =
     [(''CalendarPlugin'', PluginSubclass (Inr failing_plugin)),
      (''Dict'', UnrelatedType),
      (''PluginInterface'', PluginInterfaceItself),
      (''WeatherPlugin'', PluginSubclass (Inr weather_plugin))]"

definition hollow_module :: "(string \<times> module_attr) list" where
  "hollow_module = [(''PluginInterface'', PluginInterfaceItself), (''__name__'', NotAType)]"

definition twins_directory :: plugin_directory where
  "twins_directory =
     \<lparr>plugin_json = ManifestDocument weather_manifest,
      handler_py = Some (HandlerModule twins_module)\<rparr>"

definition hollow_directory :: plugin_directory where
  "hollow_directory =
     \<lparr>plugin_json = ManifestDocument weather_manifest,
      handler_py = Some (HandlerModule hollow_module)\<rparr>"

definition sample_plugins_dir :: plugins_dir where
  "sample_plugins_dir =
     \<lparr>dir_path = ''plugins'',
      dir_entries =
        [(''weather'', Some \<lparr>plugin_json = ManifestDocument weather_manifest,
                            handler_py = Some (HandlerModule weather_module)\<rparr>),
         (''blank'', Some \<lparr>plugin_json = ManifestDocument blank_manifest,
                          handler_py = Some (HandlerModule weather_module)\<rparr>),
         (''twins'', Some twins_directory),
         (''nofields'', Some \<lparr>plugin_json = ManifestDocument
                                (JObj [(''name'', JStr ''nofields''), (''version'', JStr ''1.0.0'')]),
                             handler_py = Some (HandlerModule weather_module)\<rparr>),
         (''hollow'', Some hollow_directory),
         (''README.md'', None)]\<rparr>"

text \<open>
  Three messages, one microsecond apart, and the entries that \<^verbatim>\<open>add_message\<close> stores for
  them; an entry that is no JSON document, one that is a JSON document without
  \<^verbatim>\<open>content\<close> and \<^verbatim>\<open>timestamp\<close>, and one that is Latin-1 text and no UTF-8.
\<close>

definition message_1 :: Message where
  "message_1 = \<lparr>role = JStr ''user'', content = JStr ''hello'', timestamp = Naive 1,
                 client_id = JNull, metadata = JObj []\<rparr>"

definition message_2 :: Message where
  "message_2 = \<lparr>role = JStr ''assistant'', content = JStr ''hi'', timestamp = Naive 2,
                 client_id = JNull, metadata = JObj []\<rparr>"

definition message_3 :: Message where
  "message_3 = \<lparr>role = JStr ''user'', content = JStr ''bye'', timestamp = Naive 3,
                 client_id = JNull, metadata = JObj []\<rparr>"

definition document_1 :: json where
  "document_1 = JObj [(''role'', JStr ''user''), (''content'', JStr ''hello''),
                      (''timestamp'', JStr ''1970-01-01T00:00:00.000001''),
                      (''client_id'', JNull), (''metadata'', JObj [])]"

definition document_2 :: json where
  "document_2 = JObj [(''role'', JStr ''assistant''), (''content'', JStr ''hi''),
                      (''timestamp'', JStr ''1970-01-01T00:00:00.000002''),
                      (''client_id'', JNull), (''metadata'', JObj [])]"

definition document_3 :: json where
  "document_3 = JObj [(''role'', JStr ''user''), (''content'', JStr ''bye''),
                      (''timestamp'', JStr ''1970-01-01T00:00:00.000003''),
                      (''client_id'', JNull), (''metadata'', JObj [])]"

definition entry_1 :: string where
  \<open>entry_1 = ''{"role": "user", "content": "hello", "timestamp": "1970-01-01T00:00:00.000001", "client_id": null, "metadata": {}}''\<close>

definition entry_2 :: string where
  \<open>entry_2 = ''{"role": "assistant", "content": "hi", "timestamp": "1970-01-01T00:00:00.000002", "client_id": null, "metadata": {}}''\<close>

definition entry_3 :: string where
  \<open>entry_3 = ''{"role": "user", "content": "bye", "timestamp": "1970-01-01T00:00:00.000003", "client_id": null, "metadata": {}}''\<close>

definition entry_garbage :: string where
  "entry_garbage = ''not json''"

definition entry_partial :: string where
  \<open>entry_partial = ''{"role": "user"}''\<close>

definition entry_latin1 :: string where
  "entry_latin1 = ''caf'' @ [CHR 0xE9]"

text \<open>
  The library functions on the texts, documents and times above, as CPython computes them
  there. No other argument occurs in the examples; on those the parsers are set to raise.
\<close>

definition sample_pylib :: pylib where
  "sample_pylib =
     \<lparr>json_loads = (\<lambda>s. if s = entry_1 then Some document_1
                        else if s = entry_2 then Some document_2
                        else if s = entry_3 then Some document_3
                        else if s = entry_partial then Some (JObj [(''role'', JStr ''user'')])
                        else None),
      json_dumps = (\<lambda>j. if j = document_1 then entry_1
                        else if j = document_2 then entry_2
                        else if j = document_3 then entry_3
                        else ''null''),
      fromisoformat = (\<lambda>s. if s = ''1970-01-01T00:00:00.000001'' then Some (Naive 1)
                           else if s = ''1970-01-01T00:00:00.000002'' then Some (Naive 2)
                           else if s = ''1970-01-01T00:00:00.000003'' then Some (Naive 3)
                           else None),
      isoformat = (\<lambda>t. if t = Naive 1 then ''1970-01-01T00:00:00.000001''
                       else if t = Naive 2 then ''1970-01-01T00:00:00.000002''
                       else if t = Naive 3 then ''1970-01-01T00:00:00.000003''
                       else if t = Aware 2 then ''1970-01-01T00:00:00.000002+00:00''
                       else ''1970-01-01T00:00:00'')\<rparr>"

text \<open>
  A context with a time to live of an hour, one with a second, one with a negative time to
  live; none has connected yet.
\<close>

definition sample_context :: RedisContext where
  "sample_context =
     \<lparr>redis_url = ''redis://localhost:6379'', ttl_seconds = 3600, has_client = False\<rparr>"

definition brief_context :: RedisContext where
  "brief_context =
     \<lparr>redis_url = ''redis://localhost:6379'', ttl_seconds = 1, has_client = False\<rparr>"

definition negative_context :: RedisContext where
  "negative_context =
     \<lparr>redis_url = ''redis://localhost:6379'', ttl_seconds = - 1, has_client = False\<rparr>"

definition empty_server :: RedisServer where
  "empty_server = Connected no_key"

text \<open>
  Logs: the three messages as appends at times 1, 2 and 3 leave them under a time to live
  of an hour, and under one of a second; the first two; the first and the third with two
  entries between that do not deserialize; the first and the third with an entry between
  that is no UTF-8; two entries that do not deserialize; the third message ahead of the
  first.
\<close>

definition three_messages :: redis_key where
  "three_messages = \<lparr>elements = [entry_1, entry_2, entry_3], expire_at = Some 3600000003\<rparr>"

definition three_brief_messages :: redis_key where
  "three_brief_messages =
     \<lparr>elements = [entry_1, entry_2, entry_3], expire_at = Some 1000003\<rparr>"

definition two_messages :: redis_key where
  "two_messages = \<lparr>elements = [entry_1, entry_2], expire_at = Some 3600000002\<rparr>"

definition damaged_log :: redis_key where
  "damaged_log =
     \<lparr>elements = [entry_1, entry_garbage, entry_partial, entry_3],
      expire_at = Some 3600000003\<rparr>"

definition undecodable_log :: redis_key where
  "undecodable_log =
     \<lparr>elements = [entry_1, entry_latin1, entry_3], expire_at = Some 3600000003\<rparr>"

definition unparsable_log :: redis_key where
  "unparsable_log =
     \<lparr>elements = [entry_garbage, entry_partial], expire_at = Some 3600000003\<rparr>"

definition reordered_log :: redis_key where
  "reordered_log = \<lparr>elements = [entry_3, entry_1], expire_at = Some 3600000003\<rparr>"

section \<open>Notions of the specification\<close>

text \<open>
  The implementers of the capability interface that a module contains, in the order of
  \<^verbatim>\<open>dir(module)\<close>: the proper subclasses of \<^verbatim>\<open>PluginInterface\<close>.
\<close>

definition implementers :: "(string \<times> module_attr) list \<Rightarrow> (exn + PluginInterface) list" where
  "implementers attrs =
     concat (map (\<lambda>na. case snd na of PluginSubclass cls \<Rightarrow> [cls] | other \<Rightarrow> []) attrs)"

text \<open>A manifest is a dict that has the four required fields as keys.\<close>

definition has_required_fields :: "json \<Rightarrow> bool" where
  "has_required_fields manifest =
     (case manifest of
        JObj d \<Rightarrow> list_all (\<lambda>field. field \<in> set (map fst d)) required_fields
      | other \<Rightarrow> False)"

text \<open>The health status of one plugin taken alone: what it answers, unhealthy when it raises.\<close>

definition status_of :: "PluginInterface \<Rightarrow> bool" where
  "status_of plugin =
     (case health_check plugin of Inr is_healthy \<Rightarrow> is_healthy | Inl e \<Rightarrow> False)"

text \<open>
  A plugin whose \<^verbatim>\<open>health_check\<close> answers, or raises an instance of \<^verbatim>\<open>Exception\<close>.
\<close>

definition health_check_raises_Exception_only :: "PluginInterface \<Rightarrow> bool" where
  "health_check_raises_Exception_only plugin =
     (case health_check plugin of Inr is_healthy \<Rightarrow> True | Inl e \<Rightarrow> isinstance_Exception e)"

text \<open>
  A key that a read at time \<open>now\<close> can decode: every element it holds then is
  well-formed UTF-8.
\<close>

definition readable :: "int \<Rightarrow> redis_key \<Rightarrow> bool" where
  "readable now r = list_all valid_utf8 (elements (live now r))"

text \<open>
  The messages that a list of stored entries holds: those entries that deserialize, in the
  order of the list.
\<close>

definition stored_messages :: "pylib \<Rightarrow> string list \<Rightarrow> Message list" where
  "stored_messages L entries =
     concat (map (\<lambda>msg_json. case parse_message L msg_json of
                                 Inr msg \<Rightarrow> [msg] | Inl e \<Rightarrow> []) entries)"

text \<open>The messages in the log that a call at time \<open>now\<close> finds.\<close>

definition log_messages :: "pylib \<Rightarrow> int \<Rightarrow> redis_key \<Rightarrow> Message list" where
  "log_messages L now r = stored_messages L (elements (live now r))"

text \<open>
  A message that the filter of a read lets through: any message when no \<open>since\<close> is
  given; otherwise one whose timestamp is of the kind of \<open>since\<close> and not earlier.
\<close>

definition admits :: "datetime option \<Rightarrow> Message \<Rightarrow> bool" where
  "admits since msg =
     (case since of
        None \<Rightarrow> True
      | Some s \<Rightarrow> same_kind (timestamp msg) s \<and> instant s \<le> instant (timestamp msg))"

text \<open>A key whose deadline, if it has one, has not passed at time \<open>now\<close>.\<close>

definition fresh :: "int \<Rightarrow> redis_key \<Rightarrow> bool" where
  "fresh now k = (live now k = k)"

text \<open>A message stamped at or after an instant, and one stamped strictly earlier.\<close>

definition at_or_after :: "datetime \<Rightarrow> Message \<Rightarrow> bool" where
  "at_or_after s msg = (instant s \<le> instant (timestamp msg))"

definition earlier_than :: "datetime \<Rightarrow> Message \<Rightarrow> bool" where
  "earlier_than s msg = (instant (timestamp msg) < instant s)"

text \<open>
  Messages whose timestamps are all of the kind of \<open>s\<close>, naive or aware, so that Python
  compares them with it.
\<close>

definition comparable :: "datetime \<Rightarrow> Message list \<Rightarrow> bool" where
  "comparable s messages = list_all (\<lambda>msg. same_kind (timestamp msg) s) messages"

text \<open>Messages in ascending chronological order.\<close>

definition chronological :: "Message list \<Rightarrow> bool" where
  "chronological messages = sorted (map (\<lambda>msg. instant (timestamp msg)) messages)"

text \<open>The most recent \<open>n\<close> entries of a sequence, in their order.\<close>

definition most_recent :: "nat \<Rightarrow> 'a list \<Rightarrow> 'a list" where
  "most_recent n xs = rev (take n (rev xs))"

text \<open>The entry that the code writes for a message.\<close>

definition entry_of :: "pylib \<Rightarrow> Message \<Rightarrow> string" where
  "entry_of L msg = json_dumps L (JObj (to_dict L msg))"

text \<open>
  A message as it reads after it was written back: \<^verbatim>\<open>to_dict\<close> writes an empty or absent
  \<^verbatim>\<open>metadata\<close> as \<^verbatim>\<open>{}\<close>.
\<close>

definition written_back :: "Message \<Rightarrow> Message" where
  "written_back msg = msg\<lparr>metadata := (if truthy (metadata msg) then metadata msg else JObj [])\<rparr>"

text \<open>
  The library round trips on a message: \<^verbatim>\<open>json.dumps\<close> writes well-formed UTF-8 for it,
  \<^verbatim>\<open>json.loads\<close> reads back what \<^verbatim>\<open>json.dumps\<close> wrote, and \<^verbatim>\<open>fromisoformat\<close> what
  \<^verbatim>\<open>isoformat\<close> wrote for its timestamp.
\<close>

definition round_trips :: "pylib \<Rightarrow> Message \<Rightarrow> bool" where
  "round_trips L msg =
     (valid_utf8 (json_dumps L (JObj (to_dict L msg)))
      \<and> json_loads L (json_dumps L (JObj (to_dict L msg))) = Some (JObj (to_dict L msg))
      \<and> fromisoformat L (isoformat L (timestamp msg)) = Some (timestamp msg))"

text \<open>The list a server holds; none when it is out of reach.\<close>

definition server_elements :: "RedisServer \<Rightarrow> string list" where
  "server_elements srv = (case srv of Connected r \<Rightarrow> elements r | Unreachable e \<Rightarrow> [])"

text \<open>
  A log on which the read and the comprehension of a prune go through: it decodes, and the
  timestamps of its messages are of the kind of the cutoff.
\<close>

definition prune_reads :: "pylib \<Rightarrow> int \<Rightarrow> datetime \<Rightarrow> redis_key \<Rightarrow> bool" where
  "prune_reads L now before r = (readable now r \<and> comparable before (log_messages L now r))"

text \<open>The three calls of \<^verbatim>\<open>add_message\<close> of one client, one after the other.\<close>

definition three_appends ::
  "RedisContext \<Rightarrow> pylib \<Rightarrow> RedisServer
   \<Rightarrow> int \<Rightarrow> string \<Rightarrow> string \<Rightarrow> string option \<Rightarrow> pydict option
   \<Rightarrow> int \<Rightarrow> string \<Rightarrow> string \<Rightarrow> string option \<Rightarrow> pydict option
   \<Rightarrow> int \<Rightarrow> string \<Rightarrow> string \<Rightarrow> string option \<Rightarrow> pydict option
   \<Rightarrow> unit outcome" where
  "three_appends self L srv t_a role_a content_a client_a meta_a
                            t_b role_b content_b client_b meta_b
                            t_c role_c content_c client_c meta_c =
     (let first = add_message self L t_a role_a content_a client_a meta_a srv;
          second = add_message (self_after first) L t_b role_b content_b client_b meta_b
                     (server_after first)
      in add_message (self_after second) L t_c role_c content_c client_c meta_c
           (server_after second))"

section \<open>Properties of the plugin loader\<close>

lemma dict_merge_simps:
  "dict_merge d [] = d"
  "dict_merge d (kv # e) = dict_merge (dict_set (fst kv) (snd kv) d) e"
  by (simp_all add: dict_merge_def)

lemma dict_set_fresh: "k \<notin> set (map fst d) \<Longrightarrow> dict_set k v d = d @ [(k, v)]"
  by (induction d) auto

lemma list_all_dict_set:
  "list_all P d \<Longrightarrow> P (k, v) \<Longrightarrow> list_all P (dict_set k v d)"
  by (induction d) auto

subsection \<open>Dispatch\<close>




subsection \<open>Loading\<close>

text \<open>
  C2. Whenever \<open>load_plugin\<close> raises, whatever the cause, the loader after the call is the
  loader before it: \<^verbatim>\<open>loaded_plugins\<close> and \<^verbatim>\<open>plugin_manifests\<close> are unchanged.
\<close>

theorem load_plugin_failure_keeps_registry:
  assumes "fst (load_plugin fs now plugin_name self) = Some e"
  shows "snd (load_plugin fs now plugin_name self) = self"
  using assms
  by (auto simp: load_plugin_def Let_def register_plugin_def
           split: option.splits sum.splits if_splits)

text \<open>The theorem at a manifest that lacks \<^verbatim>\<open>description\<close> and \<^verbatim>\<open>intents\<close>.\<close>

theorem load_plugin_failure_keeps_registry_witness:
  "fst (load_plugin sample_plugins_dir 7 ''nofields'' sample_loader) =
     Some (ConfigurationError
       \<lparr>message = ''Configuration error for '' @ quoted ''description''
                   @ '': Missing required field '' @ quoted ''description''
                   @ '' in plugins/nofields/plugin.json'',
        error_code = ''CONFIGURATION_ERROR'',
        timestamp = 7,
        context = Some [(''field'', JStr ''description'')]\<rparr>)
   \<and> snd (load_plugin sample_plugins_dir 7 ''nofields'' sample_loader) = sample_loader"
proof -
  have h: "fst (load_plugin sample_plugins_dir 7 ''nofields'' sample_loader) =
     Some (ConfigurationError
       \<lparr>message = ''Configuration error for '' @ quoted ''description''
                   @ '': Missing required field '' @ quoted ''description''
                   @ '' in plugins/nofields/plugin.json'',
        error_code = ''CONFIGURATION_ERROR'',
        timestamp = 7,
        context = Some [(''field'', JStr ''description'')]\<rparr>)"
    by (simp add: load_plugin_def sample_plugins_dir_def load_manifest_def required_fields_def
          new_ConfigurationError_def dict_merge_simps or_empty_def)
  from load_plugin_failure_keeps_registry [OF h] h show ?thesis by simp
qed

text \<open>
  A missing or malformed manifest, a missing required field, a missing or unresolvable
  handler and a failing \<^verbatim>\<open>on_load\<close> hook do make \<open>load_plugin\<close> raise.
\<close>

lemma load_plugin_raises_on_bad_manifest:
  assumes "map_of (dir_entries fs) plugin_name = Some (Some pd)"
      and "plugin_json pd = ManifestMissing \<or> (\<exists>err. plugin_json pd = ManifestInvalidJSON err)
           \<or> (\<exists>d field. plugin_json pd = ManifestDocument (JObj d)
                 \<and> field \<in> set required_fields \<and> field \<notin> set (map fst d))"
  shows "\<exists>b. fst (load_plugin fs now plugin_name self) = Some (ConfigurationError b)"
proof -
  have "\<exists>b. load_manifest (dir_path fs @ ''/'' @ plugin_name) pd now
               = Inl (ConfigurationError b)"
    using assms(2)
    by (auto simp: load_manifest_def Let_def new_ConfigurationError_def required_fields_def)
  then show ?thesis using assms(1) by (auto simp: load_plugin_def Let_def)
qed

lemma load_plugin_raises_on_bad_handler:
  assumes "map_of (dir_entries fs) plugin_name = Some (Some pd)"
      and "load_manifest (dir_path fs @ ''/'' @ plugin_name) pd now = Inr manifest"
      and "manifest_get_enabled manifest = Inr enabled" and "truthy enabled"
      and "handler_py pd = None \<or> handler_py pd = Some SpecUnavailable
           \<or> (\<exists>e. handler_py pd = Some (ExecModuleRaises e))
           \<or> (\<exists>attrs. handler_py pd = Some (HandlerModule attrs)
                 \<and> find_plugin_class attrs = None)"
  shows "\<exists>e. fst (load_plugin fs now plugin_name self) = Some e"
proof -
  have "\<exists>e. load_plugin_module (dir_path fs @ ''/'' @ plugin_name) plugin_name pd now = Inl e"
    using assms(5)
    by (auto simp: load_plugin_module_def load_plugin_module_body_def Let_def)
  then show ?thesis using assms(1-4) by (auto simp: load_plugin_def Let_def)
qed

lemma load_plugin_raises_on_failing_hook:
  assumes "map_of (dir_entries fs) plugin_name = Some (Some pd)"
      and "load_manifest (dir_path fs @ ''/'' @ plugin_name) pd now = Inr manifest"
      and "manifest_get_enabled manifest = Inr enabled" and "truthy enabled"
      and "load_plugin_module (dir_path fs @ ''/'' @ plugin_name) plugin_name pd now = Inr plugin"
      and "on_load plugin = Some e"
  shows "load_plugin fs now plugin_name self = (Some e, self)"
  using assms by (simp add: load_plugin_def Let_def)

lemma find_plugin_class_implementers:
  "find_plugin_class attrs =
     (case implementers attrs of [] \<Rightarrow> None | cls # others \<Rightarrow> Some cls)"
  by (induction attrs rule: find_plugin_class.induct) (simp_all add: implementers_def)

text \<open>
  C6, as the code has it. For a handler that executes into a module: with no implementer
  of the interface \<open>load_plugin_module\<close> raises a \<^verbatim>\<open>ConfigurationError\<close> for
  \<^verbatim>\<open>handler.py\<close>; with one or more, the first in the order of \<^verbatim>\<open>dir(module)\<close> is
  instantiated, whatever the others are.
\<close>

theorem load_plugin_module_takes_first_implementer:
  assumes "handler_py pd = Some (HandlerModule attrs)"
  shows "load_plugin_module plugin_path plugin_name pd now =
     (case implementers attrs of
        [] \<Rightarrow>
          Inl (ConfigurationError
                 \<lparr>message = ''Configuration error for '' @ quoted ''handler.py''
                             @ '': No PluginInterface subclass found in '' @ plugin_path
                             @ ''/handler.py'',
                  error_code = ''CONFIGURATION_ERROR'',
                  timestamp = now,
                  context = Some [(''field'', JStr ''handler.py'')]\<rparr>)
      | cls # others \<Rightarrow>
          (case cls of
             Inr plugin \<Rightarrow> Inr plugin
           | Inl e \<Rightarrow>
               if isinstance_Exception e \<and> \<not> isinstance_ConfigurationError e
               then Inl (new_ConfigurationError ''handler.py''
                      (''Failed to load plugin '' @ plugin_name @ '': '' @ py_str e)
                      (Some [(''error_type'', JStr (type_name e))]) now)
               else Inl e))"
  using assms
  by (simp add: load_plugin_module_def load_plugin_module_body_def find_plugin_class_implementers
        new_ConfigurationError_def dict_merge_simps or_empty_def
        split: list.splits sum.splits)

text \<open>The theorem at the module with two plugin classes.\<close>

theorem load_plugin_module_takes_first_implementer_witness:
  "handler_py twins_directory = Some (HandlerModule twins_module)
   \<and> load_plugin_module ''plugins/twins'' ''twins'' twins_directory 7 = Inr failing_plugin"
  using load_plugin_module_takes_first_implementer
          [of twins_directory twins_module "''plugins/twins''" "''twins''" 7]
  by (simp add: implementers_def twins_module_def twins_directory_def)

text \<open>
  C6 as stated fails: loading the plugin whose handler defines two plugin classes returns
  without a fault and registers an instance of the first class.
\<close>

theorem load_plugin_two_classes_counterexample:
  "fst (load_plugin sample_plugins_dir 7 ''twins'' empty_loader) = None
   \<and> loaded_plugins (snd (load_plugin sample_plugins_dir 7 ''twins'' empty_loader))
       = [(''twins'', failing_plugin)]"
  by (simp add: load_plugin_def sample_plugins_dir_def load_manifest_def required_fields_def
        weather_manifest_def load_plugin_module_def load_plugin_module_body_def twins_directory_def
        twins_module_def failing_plugin_def register_plugin_def empty_loader_def)

lemma check_required_fields_present:
  "check_required_fields fs (JObj d) path now = None
   \<Longrightarrow> list_all (\<lambda>field. field \<in> set (map fst d)) fs"
  by (induction fs) (auto split: if_splits)

lemma load_manifest_required:
  "load_manifest path pd now = Inr (JObj d) \<Longrightarrow> has_required_fields (JObj d)"
  by (auto simp: load_manifest_def has_required_fields_def Let_def
           split: manifest_file.splits option.splits
           dest: check_required_fields_present)

lemma manifest_get_enabled_dict:
  "manifest_get_enabled m = Inr v \<Longrightarrow> \<exists>d. m = JObj d"
  by (cases m) auto

text \<open>
  C7, as the code has it. Every registered manifest is a dict that has the four required
  fields as keys: the property holds of the empty registry and \<open>load_plugin\<close> keeps it.
  The values of the fields are not looked at.
\<close>

theorem load_plugin_keeps_required_fields:
  assumes "list_all (\<lambda>entry. has_required_fields (snd entry)) (plugin_manifests self)"
  shows "list_all (\<lambda>entry. has_required_fields (snd entry))
           (plugin_manifests (snd (load_plugin fs now plugin_name self)))"
proof -
  { fix pd manifest v plugin
    assume m: "load_manifest (dir_path fs @ ''/'' @ plugin_name) pd now = Inr manifest"
       and g: "manifest_get_enabled manifest = Inr v"
    from g obtain d where "manifest = JObj d" using manifest_get_enabled_dict by blast
    with m have "has_required_fields manifest" using load_manifest_required by blast
    with assms have "list_all (\<lambda>entry. has_required_fields (snd entry))
           (plugin_manifests (register_plugin plugin_name plugin manifest self))"
      by (simp add: register_plugin_def list_all_dict_set) }
  then show ?thesis using assms
    by (auto simp: load_plugin_def Let_def split: option.splits sum.splits)
qed

text \<open>The theorem at the empty registry and the well-formed weather plugin.\<close>

theorem load_plugin_keeps_required_fields_witness:
  "list_all (\<lambda>entry. has_required_fields (snd entry)) (plugin_manifests empty_loader)
   \<and> plugin_manifests (snd (load_plugin sample_plugins_dir 7 ''weather'' empty_loader))
       = [(''weather'', weather_manifest)]
   \<and> list_all (\<lambda>entry. has_required_fields (snd entry))
       (plugin_manifests (snd (load_plugin sample_plugins_dir 7 ''weather'' empty_loader)))"
proof -
  have h: "list_all (\<lambda>entry. has_required_fields (snd entry)) (plugin_manifests empty_loader)"
    by (simp add: empty_loader_def)
  have r: "plugin_manifests (snd (load_plugin sample_plugins_dir 7 ''weather'' empty_loader))
       = [(''weather'', weather_manifest)]"
    by (simp add: load_plugin_def sample_plugins_dir_def load_manifest_def required_fields_def
        weather_manifest_def load_plugin_module_def load_plugin_module_body_def
        weather_module_def weather_plugin_def register_plugin_def empty_loader_def)
  from load_plugin_keeps_required_fields [OF h, of sample_plugins_dir 7 "''weather''"] h r
  show ?thesis by simp
qed

text \<open>
  C7 as stated fails: a manifest whose four required fields are all present and empty is
  loaded without a fault and registered.
\<close>

theorem load_plugin_blank_manifest_counterexample:
  "fst (load_plugin sample_plugins_dir 7 ''blank'' empty_loader) = None
   \<and> plugin_manifests (snd (load_plugin sample_plugins_dir 7 ''blank'' empty_loader))
       = [(''blank'', JObj [(''name'', JStr ''''), (''version'', JStr ''''),
                            (''description'', JStr ''''), (''intents'', JArr [])])]"
  by (simp add: load_plugin_def sample_plugins_dir_def load_manifest_def required_fields_def
        blank_manifest_def load_plugin_module_def load_plugin_module_body_def
        weather_module_def weather_plugin_def register_plugin_def empty_loader_def)

subsection \<open>Health checks\<close>

lemma health_check_loop_collects:
  assumes "distinct (map fst plugins)"
      and "set (map fst plugins) \<inter> set (map fst health_status) = {}"
      and "list_all (\<lambda>entry. health_check_raises_Exception_only (snd entry)) plugins"
  shows "health_check_loop plugins health_status =
           Inr (health_status @ map (\<lambda>entry. (fst entry, status_of (snd entry))) plugins)"
  using assms
proof (induction plugins health_status rule: health_check_loop.induct)
  case (1 health_status)
  then show ?case by simp
next
  case (2 plugin_name plugin rest health_status)
  have fresh: "plugin_name \<notin> set (map fst health_status)" using 2(4) by auto
  have rest_ok: "list_all (\<lambda>entry. health_check_raises_Exception_only (snd entry)) rest"
    using 2(5) by simp
  show ?case
  proof (cases "health_check plugin")
    case (Inr b)
    have "health_check_loop rest (dict_set plugin_name b health_status) =
            Inr (dict_set plugin_name b health_status
                 @ map (\<lambda>entry. (fst entry, status_of (snd entry))) rest)"
      using 2(2)[OF Inr] 2(3,4) rest_ok fresh by (auto simp: dict_set_fresh)
    then show ?thesis using Inr fresh by (simp add: dict_set_fresh status_of_def)
  next
    case (Inl e)
    then have ex: "isinstance_Exception e"
      using 2(5) by (simp add: health_check_raises_Exception_only_def)
    have "health_check_loop rest (dict_set plugin_name False health_status) =
            Inr (dict_set plugin_name False health_status
                 @ map (\<lambda>entry. (fst entry, status_of (snd entry))) rest)"
      using 2(1)[OF Inl ex] 2(3,4) rest_ok fresh by (auto simp: dict_set_fresh)
    then show ?thesis using Inl ex fresh by (simp add: dict_set_fresh status_of_def)
  qed
qed

text \<open>
  C8, as the code has it. When every fault that a loaded plugin's \<^verbatim>\<open>health_check\<close> raises
  is an instance of \<^verbatim>\<open>Exception\<close>, \<open>health_check_all\<close> returns one status for every
  loaded plugin, in registry order, and each status is that of the plugin taken alone:
  what it answers, \<open>False\<close> when it raises.
\<close>

theorem health_check_all_isolates:
  assumes "distinct (map fst (loaded_plugins self))"
      and "list_all (\<lambda>entry. health_check_raises_Exception_only (snd entry))
             (loaded_plugins self)"
  shows "health_check_all self =
           Inr (map (\<lambda>entry. (fst entry, status_of (snd entry))) (loaded_plugins self))"
  using health_check_loop_collects [OF assms(1) _ assms(2), of "[]"]
  by (simp add: health_check_all_def)

text \<open>The theorem at the sample loader, whose calendar plugin raises \<^verbatim>\<open>RuntimeError\<close>.\<close>

theorem health_check_all_isolates_witness:
  "distinct (map fst (loaded_plugins sample_loader))
   \<and> list_all (\<lambda>entry. health_check_raises_Exception_only (snd entry))
         (loaded_plugins sample_loader)
   \<and> health_check_all sample_loader = Inr [(''weather'', True), (''calendar'', False)]"
proof -
  have d: "distinct (map fst (loaded_plugins sample_loader))"
    by (simp add: sample_loader_def)
  have x: "list_all (\<lambda>entry. health_check_raises_Exception_only (snd entry))
             (loaded_plugins sample_loader)"
    by (simp add: sample_loader_def weather_plugin_def failing_plugin_def
          health_check_raises_Exception_only_def)
  from health_check_all_isolates [OF d x] d x show ?thesis
    by (simp add: sample_loader_def status_of_def weather_plugin_def failing_plugin_def)
qed

text \<open>
  C8 as stated fails: with a plugin whose \<^verbatim>\<open>health_check\<close> raises \<^verbatim>\<open>SystemExit\<close> ahead of
  a healthy one, \<open>health_check_all\<close> raises that \<^verbatim>\<open>SystemExit\<close> and returns no map.
\<close>

theorem health_check_all_exit_counterexample:
  "health_check_all exiting_loader = Inl (NonException ''SystemExit'' ''1'')"
  by (simp add: health_check_all_def exiting_loader_def exiting_plugin_def)

section \<open>Properties of the context store\<close>

subsection \<open>Reading\<close>

text \<open>
  Every fault of \<^verbatim>\<open>json.loads\<close>, of \<^verbatim>\<open>Message.from_dict\<close> and of the comparison of two
  datetimes is an instance of \<^verbatim>\<open>Exception\<close>, so the inner handler of \<^verbatim>\<open>get_messages\<close>
  catches it.
\<close>

lemma from_dict_raises_Exception:
  "from_dict L data = Inl e \<Longrightarrow> isinstance_Exception e"
  by (auto simp: from_dict_def split: json.splits option.splits)

lemma parse_message_raises_Exception:
  "parse_message L msg_json = Inl e \<Longrightarrow> isinstance_Exception e"
  by (auto simp: parse_message_def split: option.splits dest: from_dict_raises_Exception)

lemma datetime_lt_raises_Exception:
  "datetime_lt a b = Inl e \<Longrightarrow> isinstance_Exception e"
  by (auto simp: datetime_lt_def split: if_splits)

lemma stored_messages_simps:
  "stored_messages L [] = []"
  "stored_messages L (msg_json # rest) =
     (case parse_message L msg_json of Inr msg \<Rightarrow> [msg] | Inl e \<Rightarrow> []) @ stored_messages L rest"
  by (simp_all add: stored_messages_def)

lemma stored_messages_append:
  "stored_messages L (xs @ ys) = stored_messages L xs @ stored_messages L ys"
  by (simp add: stored_messages_def)

lemma drop_most_recent: "drop (length xs - n) xs = most_recent n xs"
  by (simp add: most_recent_def take_rev)

text \<open>
  The loop of \<^verbatim>\<open>get_messages\<close> always returns: it collects the entries that deserialize
  and that the filter lets through, in the order of the list.
\<close>

lemma parse_messages_collects:
  "parse_messages L since entries messages =
     Inr (messages @ filter (admits since) (stored_messages L entries))"
proof (induction entries arbitrary: messages)
  case Nil
  then show ?case by (simp add: stored_messages_simps)
next
  case (Cons msg_json rest)
  show ?case
  proof (cases "parse_message L msg_json")
    case (Inl e)
    then have "isinstance_Exception e" by (rule parse_message_raises_Exception)
    with Inl Cons show ?thesis by (simp add: stored_messages_simps)
  next
    case (Inr msg)
    show ?thesis
    proof (cases since)
      case None
      with Inr Cons show ?thesis by (simp add: stored_messages_simps admits_def)
    next
      case (Some s)
      show ?thesis
      proof (cases "same_kind (timestamp msg) s")
        case True
        with Inr Some Cons show ?thesis
          by (auto simp: stored_messages_simps admits_def datetime_lt_def)
      next
        case False
        with Inr Some Cons show ?thesis
          by (simp add: stored_messages_simps admits_def datetime_lt_def)
      qed
    qed
  qed
qed

lemma get_redis_connected:
  "get_redis self now (Connected r) = (None, self\<lparr>has_client := True\<rparr>)"
  by (simp add: get_redis_def client_ping_def)

text \<open>
  \<^verbatim>\<open>get_messages\<close> on a server in reach: the messages of the log, filtered and cut to the
  limit, when the reply of \<^verbatim>\<open>LRANGE\<close> decodes; a \<^verbatim>\<open>ContextError\<close> when it does not.
\<close>

lemma get_messages_connected:
  "returned (get_messages self L now limit since (Connected r)) =
     (if readable now r
      then Inr (apply_limit limit (filter (admits since) (log_messages L now r)))
      else Inl (new_ContextError
                  (''Failed to get messages: utf-8 codec can't decode byte: invalid start byte'')
                  (Some [(''limit'', limit_json limit),
                         (''error_type'', JStr ''UnicodeDecodeError'')]) now))"
  by (simp add: get_messages_def get_redis_connected client_lrange_def r_lrange_all_def
        readable_def log_messages_def parse_messages_collects get_messages_except_def)

lemma get_messages_connected_state:
  "server_after (get_messages self L now limit since (Connected r)) = Connected r"
  "self_after (get_messages self L now limit since (Connected r)) = self\<lparr>has_client := True\<rparr>"
  by (simp_all add: get_messages_def get_redis_connected client_lrange_def
        parse_messages_collects)

lemma messages_not_before_comparable:
  "comparable before messages
   \<Longrightarrow> messages_not_before before messages = Inr (filter (at_or_after before) messages)"
  by (induction messages) (simp_all add: comparable_def datetime_ge_def at_or_after_def)

lemma messages_not_before_incomparable:
  "\<not> comparable before messages
   \<Longrightarrow> messages_not_before before messages =
       Inl (OtherException ''TypeError''
              ''can't compare offset-naive and offset-aware datetimes'')"
  by (induction messages)
     (auto simp: comparable_def datetime_ge_def split: sum.splits if_splits)

subsection \<open>Appends of other clients\<close>

lemma live_no_key [simp]: "live now no_key = no_key"
  by (simp add: live_def no_key_def)

lemma elements_no_key [simp]: "elements no_key = []"
  by (simp add: no_key_def)

lemma append_step_fresh:
  assumes "0 < ttl" and "fresh now k"
  shows "elements (r_expire now ttl (r_rpush now [entry] k)) = elements k @ [entry]"
    and "fresh now (r_expire now ttl (r_rpush now [entry] k))"
proof -
  let ?p = "r_rpush now [entry] k"
  have p: "?p = k\<lparr>elements := elements k @ [entry]\<rparr>"
    using assms(2) by (simp add: r_rpush_def fresh_def)
  have lp: "live now ?p = ?p"
    using assms(2) by (auto simp: p live_def fresh_def no_key_def split: option.splits if_splits)
  show "elements (r_expire now ttl ?p) = elements k @ [entry]"
    using assms(1) lp by (simp add: r_expire_def p)
  show "fresh now (r_expire now ttl ?p)"
    using assms(1) lp by (simp add: r_expire_def p fresh_def live_def)
qed

lemma appends_fold_fresh:
  assumes "0 < ttl" and "fresh now k"
  shows "elements (foldl (\<lambda>k entry. r_expire now ttl (r_rpush now [entry] k)) k entries)
           = elements k @ entries
       \<and> fresh now (foldl (\<lambda>k entry. r_expire now ttl (r_rpush now [entry] k)) k entries)"
  using assms(2)
proof (induction entries arbitrary: k)
  case Nil
  then show ?case by simp
next
  case (Cons entry rest)
  from append_step_fresh [OF assms(1) Cons.prems, of entry]
  have e: "elements (r_expire now ttl (r_rpush now [entry] k)) = elements k @ [entry]"
   and f: "fresh now (r_expire now ttl (r_rpush now [entry] k))" by simp_all
  from Cons.IH [OF f] e show ?case by simp
qed

lemma fresh_no_key [simp]: "fresh now no_key"
  by (simp add: fresh_def)

lemma concurrent_appends_no_key:
  assumes "0 < ttl_seconds self"
  shows "\<exists>k. concurrent_appends self now entries (Connected no_key) = Connected k
            \<and> elements k = entries \<and> fresh now k"
  using appends_fold_fresh [OF assms fresh_no_key, of now entries]
  by (simp add: concurrent_appends_def)

lemma concurrent_appends_connected:
  "\<exists>k. concurrent_appends self now entries (Connected r) = Connected k"
  by (simp add: concurrent_appends_def)

lemma concurrent_appends_fresh:
  assumes "0 < ttl_seconds self" and "fresh now r"
  shows "\<exists>k. concurrent_appends self now entries (Connected r) = Connected k
            \<and> elements k = elements r @ entries \<and> fresh now k"
  using appends_fold_fresh [OF assms, of entries]
  by (simp add: concurrent_appends_def)

subsection \<open>Pruning, command by command\<close>

lemma count_removed:
  "int (length messages) - int (length (filter (at_or_after before) messages))
     = int (length (filter (earlier_than before) messages))"
proof -
  have "length (filter (at_or_after before) messages)
          + length (filter (earlier_than before) messages) = length messages"
  proof -
    have "(\<lambda>msg. \<not> at_or_after before msg) = earlier_than before"
      by (auto simp: at_or_after_def earlier_than_def)
    with sum_length_filter_compl [of "at_or_after before" messages] show ?thesis by simp
  qed
  then show ?thesis by linarith
qed

text \<open>A prune whose read or comprehension raises sends no command that writes.\<close>

lemma prune_interleaved_raises:
  assumes "\<not> prune_reads L now before r"
  shows "server_after (prune_old_messages_interleaved self L now before after_read
                         after_delete after_push (Connected r)) = Connected r"
    and "\<exists>b. returned (prune_old_messages_interleaved self L now before after_read
                         after_delete after_push (Connected r)) = Inl (ContextError b)"
proof -
  show "server_after (prune_old_messages_interleaved self L now before after_read
                         after_delete after_push (Connected r)) = Connected r"
    using assms
    by (auto simp: prune_old_messages_interleaved_def get_redis_connected
          get_messages_connected prune_reads_def admits_def apply_limit_def
          messages_not_before_incomparable)
  show "\<exists>b. returned (prune_old_messages_interleaved self L now before after_read
                         after_delete after_push (Connected r)) = Inl (ContextError b)"
    using assms
    by (auto simp: prune_old_messages_interleaved_def get_redis_connected
          get_messages_connected prune_reads_def admits_def apply_limit_def
          messages_not_before_incomparable prune_old_messages_except_def new_ContextError_def)
qed

text \<open>
  A prune whose read and comprehension go through, with a positive time to live: what the
  key holds after it, and what it returns.
\<close>

lemma prune_interleaved_goes_through:
  assumes "0 < ttl_seconds self" and "prune_reads L now before r"
  shows "server_elements (server_after (prune_old_messages_interleaved self L now before
                            after_read after_delete after_push (Connected r))) =
           (let kept = filter (at_or_after before) (log_messages L now r)
            in after_delete @ (if kept = [] then [] else map (entry_of L) kept @ after_push))"
    and "returned (prune_old_messages_interleaved self L now before after_read
                     after_delete after_push (Connected r)) =
           Inr (int (length (filter (earlier_than before) (log_messages L now r))))"
proof -
  let ?ms = "log_messages L now r"
  let ?kept = "filter (at_or_after before) ?ms"
  have rd: "returned (get_messages (self\<lparr>has_client := True\<rparr>) L now None None (Connected r))
              = Inr ?ms"
    using assms(2)
    by (simp add: get_messages_connected prune_reads_def admits_def apply_limit_def)
  have cmp: "messages_not_before before ?ms = Inr ?kept"
    using assms(2) by (simp add: prune_reads_def messages_not_before_comparable)
  obtain k1 where k1: "concurrent_appends self now after_read (Connected r) = Connected k1"
    using concurrent_appends_connected by blast
  obtain k3 where k3: "concurrent_appends self now after_delete (Connected no_key) = Connected k3"
    and e3: "elements k3 = after_delete" and f3: "fresh now k3"
    using concurrent_appends_no_key [OF assms(1)] by blast
  let ?k4 = "r_rpush now (map (\<lambda>msg. json_dumps L (JObj (to_dict L msg))) ?kept) k3"
  have k4: "?k4 = k3\<lparr>elements := after_delete @ map (entry_of L) ?kept\<rparr>"
    using f3 e3 by (simp add: r_rpush_def fresh_def entry_of_def)
  have f4: "fresh now ?k4"
    using f3 by (auto simp: k4 fresh_def live_def no_key_def split: option.splits if_splits)
  obtain k5 where k5: "concurrent_appends self now after_push (Connected ?k4) = Connected k5"
    and e5: "elements k5 = elements ?k4 @ after_push" and f5: "fresh now k5"
    using concurrent_appends_fresh [OF assms(1) f4] by blast
  have e6: "?kept \<noteq> [] \<Longrightarrow>
            elements (r_expire now (ttl_seconds self) k5)
              = after_delete @ map (entry_of L) ?kept @ after_push"
    using assms(1) f5 e5 by (simp add: r_expire_def fresh_def k4)
  show "server_elements (server_after (prune_old_messages_interleaved self L now before
                            after_read after_delete after_push (Connected r))) =
           (let kept = filter (at_or_after before) (log_messages L now r)
            in after_delete @ (if kept = [] then [] else map (entry_of L) kept @ after_push))"
    using rd cmp k1 k3 e3 k5 e6
    by (simp add: prune_old_messages_interleaved_def get_redis_connected Let_def
          client_delete_def client_rpush_def client_expire_def r_delete_def server_elements_def)
  show "returned (prune_old_messages_interleaved self L now before after_read
                     after_delete after_push (Connected r)) =
           Inr (int (length (filter (earlier_than before) (log_messages L now r))))"
    using rd cmp k1 k3 k5 count_removed [of ?ms before]
    by (simp add: prune_old_messages_interleaved_def get_redis_connected Let_def
          client_delete_def client_rpush_def client_expire_def r_delete_def)
qed

subsection \<open>The example log\<close>

lemma sample_parse:
  "parse_message sample_pylib entry_1 = Inr message_1"
  "parse_message sample_pylib entry_2 = Inr message_2"
  "parse_message sample_pylib entry_3 = Inr message_3"
  "parse_message sample_pylib entry_garbage =
     Inl (OtherException ''JSONDecodeError'' ''Expecting value'')"
  "parse_message sample_pylib entry_partial = Inl (OtherException ''KeyError'' (quoted ''content''))"
  by (simp_all add: parse_message_def sample_pylib_def entry_1_def entry_2_def entry_3_def
        entry_garbage_def entry_partial_def document_1_def document_2_def document_3_def
        from_dict_def dict_get_def message_1_def message_2_def message_3_def)

lemma sample_valid:
  "valid_utf8 entry_1" "valid_utf8 entry_2" "valid_utf8 entry_3"
  "valid_utf8 entry_garbage" "valid_utf8 entry_partial" "\<not> valid_utf8 entry_latin1"
  by (simp_all add: valid_utf8_def entry_1_def entry_2_def entry_3_def entry_garbage_def
        entry_partial_def entry_latin1_def)

lemma sample_entry_of:
  "entry_of sample_pylib message_1 = entry_1"
  "entry_of sample_pylib message_2 = entry_2"
  "entry_of sample_pylib message_3 = entry_3"
  by (simp_all add: entry_of_def to_dict_def sample_pylib_def
        document_1_def document_2_def document_3_def
        message_1_def message_2_def message_3_def)

lemma sample_live:
  "live 9 three_messages = three_messages"
  "live 9 two_messages = two_messages"
  "live 9 damaged_log = damaged_log"
  "live 9 undecodable_log = undecodable_log"
  "live 9 unparsable_log = unparsable_log"
  "live 9 reordered_log = reordered_log"
  "live 2000000 three_brief_messages = no_key"
  by (simp_all add: live_def three_messages_def two_messages_def damaged_log_def
        undecodable_log_def unparsable_log_def reordered_log_def three_brief_messages_def)

lemma sample_readable:
  "readable 9 three_messages" "readable 9 two_messages" "readable 9 damaged_log"
  "\<not> readable 9 undecodable_log" "readable 9 unparsable_log" "readable 9 reordered_log"
  "readable 2000000 three_brief_messages"
  by (simp_all add: readable_def sample_live sample_valid)
     (simp_all add: three_messages_def two_messages_def damaged_log_def
        undecodable_log_def unparsable_log_def reordered_log_def sample_valid)

lemma sample_log:
  "log_messages sample_pylib 9 three_messages = [message_1, message_2, message_3]"
  "log_messages sample_pylib 9 two_messages = [message_1, message_2]"
  "log_messages sample_pylib 9 damaged_log = [message_1, message_3]"
  "log_messages sample_pylib 9 unparsable_log = []"
  "log_messages sample_pylib 9 reordered_log = [message_3, message_1]"
  "log_messages sample_pylib 2000000 three_brief_messages = []"
  by (simp_all add: log_messages_def sample_live stored_messages_simps)
     (simp_all add: three_messages_def two_messages_def damaged_log_def
        unparsable_log_def reordered_log_def stored_messages_simps sample_parse)

lemma sample_timestamps:
  "timestamp message_1 = Naive 1" "timestamp message_2 = Naive 2" "timestamp message_3 = Naive 3"
  by (simp_all add: message_1_def message_2_def message_3_def)

lemma sample_round_trips:
  "round_trips sample_pylib message_1"
  "round_trips sample_pylib message_2"
  "round_trips sample_pylib message_3"
  by (simp_all add: round_trips_def sample_entry_of [unfolded entry_of_def] sample_valid)
     (simp_all add: to_dict_def sample_pylib_def
        document_1_def document_2_def document_3_def entry_1_def entry_2_def entry_3_def
        message_1_def message_2_def message_3_def)

lemma sample_written_back:
  "written_back message_1 = message_1"
  "written_back message_2 = message_2"
  "written_back message_3 = message_3"
  by (simp_all add: written_back_def message_1_def message_2_def message_3_def)

lemma sample_new_messages:
  "written_back (new_Message ''user'' ''hello'' 1 None None) = message_1"
  "written_back (new_Message ''assistant'' ''hi'' 2 None None) = message_2"
  "written_back (new_Message ''user'' ''bye'' 3 None None) = message_3"
  "entry_of sample_pylib (new_Message ''user'' ''hello'' 1 None None) = entry_1"
  "entry_of sample_pylib (new_Message ''assistant'' ''hi'' 2 None None) = entry_2"
  "entry_of sample_pylib (new_Message ''user'' ''bye'' 3 None None) = entry_3"
  by (simp_all add: written_back_def new_Message_def optional_str_def optional_dict_def
        message_1_def message_2_def message_3_def entry_of_def to_dict_def sample_pylib_def
        document_1_def document_2_def document_3_def)

subsection \<open>Appending\<close>

text \<open>
  \<^verbatim>\<open>add_message\<close> on a server in reach pushes the entry of the new message and sets the
  deadline of the key.
\<close>

lemma add_message_connected:
  "add_message self L now role_arg content_arg client_id_arg metadata_arg (Connected r) =
     \<lparr>returned = Inr (), self_after = self\<lparr>has_client := True\<rparr>,
      server_after = Connected (r_expire now (ttl_seconds self)
        (r_rpush now
           [entry_of L (new_Message role_arg content_arg now client_id_arg metadata_arg)] r))\<rparr>"
  by (simp add: add_message_def get_redis_connected Let_def entry_of_def client_rpush_def
        client_expire_def)

lemma append_to_fresh:
  assumes "0 < ttl" and "fresh now k"
  shows "r_expire now ttl (r_rpush now [entry] k) =
           k\<lparr>elements := elements k @ [entry], expire_at := Some (now + ttl * 1000000)\<rparr>"
proof -
  have p: "r_rpush now [entry] k = k\<lparr>elements := elements k @ [entry]\<rparr>"
    using assms(2) by (simp add: r_rpush_def fresh_def)
  have "live now (k\<lparr>elements := elements k @ [entry]\<rparr>) = k\<lparr>elements := elements k @ [entry]\<rparr>"
    using assms(2) by (auto simp: live_def fresh_def no_key_def split: option.splits if_splits)
  then show ?thesis using assms(1) by (simp add: r_expire_def p)
qed

lemma fresh_until:
  "expire_at k = Some deadline \<Longrightarrow> now \<le> deadline \<Longrightarrow> fresh now k"
  by (simp add: fresh_def live_def)

lemma three_appends_leave:
  assumes "t_a < t_b" and "t_b < t_c"
      and "t_b \<le> t_a + ttl_seconds self * 1000000"
      and "t_c \<le> t_b + ttl_seconds self * 1000000"
  shows "server_after (three_appends self L (Connected no_key)
            t_a role_a content_a client_a meta_a
            t_b role_b content_b client_b meta_b
            t_c role_c content_c client_c meta_c) =
         Connected \<lparr>elements = [entry_of L (new_Message role_a content_a t_a client_a meta_a),
                                 entry_of L (new_Message role_b content_b t_b client_b meta_b),
                                 entry_of L (new_Message role_c content_c t_c client_c meta_c)],
                     expire_at = Some (t_c + ttl_seconds self * 1000000)\<rparr>"
proof -
  have pos: "0 < ttl_seconds self" using assms(1,3) by (simp add: zero_less_mult_iff)
  let ?e_a = "entry_of L (new_Message role_a content_a t_a client_a meta_a)"
  let ?e_b = "entry_of L (new_Message role_b content_b t_b client_b meta_b)"
  let ?e_c = "entry_of L (new_Message role_c content_c t_c client_c meta_c)"
  let ?k1 = "\<lparr>elements = [?e_a], expire_at = Some (t_a + ttl_seconds self * 1000000)\<rparr>"
  let ?k2 = "\<lparr>elements = [?e_a, ?e_b], expire_at = Some (t_b + ttl_seconds self * 1000000)\<rparr>"
  have s1: "r_expire t_a (ttl_seconds self) (r_rpush t_a [?e_a] no_key) = ?k1"
    using append_to_fresh [OF pos, of t_a no_key ?e_a] by (simp add: fresh_def no_key_def live_def)
  have f1: "fresh t_b ?k1" using assms(3) by (simp add: fresh_until)
  have s2: "r_expire t_b (ttl_seconds self) (r_rpush t_b [?e_b] ?k1) = ?k2"
    using append_to_fresh [OF pos f1, of ?e_b] by simp
  have f2: "fresh t_c ?k2" using assms(4) by (simp add: fresh_until)
  have s3: "r_expire t_c (ttl_seconds self) (r_rpush t_c [?e_c] ?k2) =
              \<lparr>elements = [?e_a, ?e_b, ?e_c], expire_at = Some (t_c + ttl_seconds self * 1000000)\<rparr>"
    using append_to_fresh [OF pos f2, of ?e_c] by simp
  show ?thesis
    by (simp add: three_appends_def Let_def add_message_connected s1 s2 s3)
qed

subsection \<open>Writing and reading back\<close>

lemma from_dict_to_dict:
  assumes "fromisoformat L (isoformat L (timestamp msg)) = Some (timestamp msg)"
  shows "from_dict L (JObj (to_dict L msg)) = Inr (written_back msg)"
  using assms by (cases msg) (simp add: from_dict_def to_dict_def dict_get_def written_back_def)

lemma parse_message_entry_of:
  "round_trips L msg \<Longrightarrow> parse_message L (entry_of L msg) = Inr (written_back msg)"
  by (simp add: round_trips_def parse_message_def entry_of_def from_dict_to_dict)

lemma stored_messages_entries:
  "list_all (round_trips L) messages
   \<Longrightarrow> stored_messages L (map (entry_of L) messages) = map written_back messages"
  by (induction messages) (simp_all add: stored_messages_simps parse_message_entry_of)

lemma valid_utf8_entries:
  "list_all (round_trips L) messages \<Longrightarrow> list_all valid_utf8 (map (entry_of L) messages)"
  by (induction messages) (simp_all add: round_trips_def entry_of_def)

lemma timestamp_written_back [simp]: "timestamp (written_back msg) = timestamp msg"
  by (simp add: written_back_def)

lemma timestamp_new_Message [simp]:
  "timestamp (new_Message role_arg content_arg now client_id_arg metadata_arg) = Naive now"
  by (simp add: new_Message_def)

subsection \<open>Reading since an instant\<close>

lemma admits_None: "filter (admits None) messages = messages"
  by (simp add: admits_def)

lemma admits_comparable:
  "comparable s messages
   \<Longrightarrow> filter (admits (Some s)) messages = filter (at_or_after s) messages"
  by (induction messages) (simp_all add: comparable_def admits_def at_or_after_def)

lemma chronological_filter:
  "chronological messages \<Longrightarrow> chronological (filter P messages)"
  by (simp add: chronological_def sorted_filter)

lemma chronological_most_recent:
  "chronological messages \<Longrightarrow> chronological (most_recent n messages)"
  by (simp add: chronological_def drop_most_recent [symmetric] drop_map [symmetric] sorted_wrt_drop)

text \<open>
  After three appends at times \<open>t_a < t_b < t_c\<close> to an empty log, none further than the
  time to live from the one before, a read since \<open>t_b\<close> that comes no later than the time
  to live after the third returns the second and the third message, in that order.
\<close>

lemma read_since_second_of_three:
  assumes "t_a < t_b" and "t_b < t_c"
      and "t_b \<le> t_a + ttl_seconds self * 1000000"
      and "t_c \<le> t_b + ttl_seconds self * 1000000"
      and "now \<le> t_c + ttl_seconds self * 1000000"
      and "round_trips L (new_Message role_a content_a t_a client_a meta_a)"
      and "round_trips L (new_Message role_b content_b t_b client_b meta_b)"
      and "round_trips L (new_Message role_c content_c t_c client_c meta_c)"
  shows "returned (get_messages
            (self_after (three_appends self L (Connected no_key)
                           t_a role_a content_a client_a meta_a
                           t_b role_b content_b client_b meta_b
                           t_c role_c content_c client_c meta_c))
            L now None (Some (Naive t_b))
            (server_after (three_appends self L (Connected no_key)
                           t_a role_a content_a client_a meta_a
                           t_b role_b content_b client_b meta_b
                           t_c role_c content_c client_c meta_c))) =
         Inr [written_back (new_Message role_b content_b t_b client_b meta_b),
              written_back (new_Message role_c content_c t_c client_c meta_c)]"
proof -
  let ?m_a = "new_Message role_a content_a t_a client_a meta_a"
  let ?m_b = "new_Message role_b content_b t_b client_b meta_b"
  let ?m_c = "new_Message role_c content_c t_c client_c meta_c"
  let ?k = "\<lparr>elements = [entry_of L ?m_a, entry_of L ?m_b, entry_of L ?m_c],
             expire_at = Some (t_c + ttl_seconds self * 1000000)\<rparr>"
  have lv: "live now ?k = ?k" using assms(5) by (simp add: live_def)
  have rd: "readable now ?k"
    unfolding readable_def lv using assms(6-8) by (simp add: round_trips_def entry_of_def)
  have lg: "log_messages L now ?k = [written_back ?m_a, written_back ?m_b, written_back ?m_c]"
    unfolding log_messages_def lv
    using assms(6-8) by (simp add: stored_messages_simps parse_message_entry_of)
  show ?thesis
    using assms(1,2) rd
    by (simp add: three_appends_leave [OF assms(1-4)] get_messages_connected lg
          apply_limit_def admits_def)
qed

text \<open>
  C5, as the code has it. Take a server in reach whose log decodes, holds messages stamped
  with datetimes of the kind of \<open>since\<close> (naive or aware) and holds them in ascending order
  of time. Then \<open>get_messages\<close> with \<open>since\<close> returns the stored messages whose timestamp
  is at or after \<open>since\<close>; with a positive \<open>limit\<close> it returns the most recent \<open>limit\<close> of
  them; with a \<open>limit\<close> of zero or less it returns all of them; and what it returns is in
  ascending chronological order. In particular, after three appends at times
  \<open>t_a < t_b < t_c\<close> to an empty log, none further than the time to live from the one
  before, with a library that reads back what it wrote for the three messages, a read since
  \<open>t_b\<close> no later than the time to live after the third append returns the second and the
  third message, in that order.
\<close>

theorem get_messages_since_limit:
  "(readable now r \<and> comparable since (log_messages L now r)
      \<and> chronological (log_messages L now r)
    \<longrightarrow> (let found = filter (at_or_after since) (log_messages L now r);
             result = (case limit of
                         None \<Rightarrow> found
                       | Some n \<Rightarrow> if 0 < n then most_recent (nat n) found else found)
         in returned (get_messages self L now limit (Some since) (Connected r)) = Inr result
            \<and> chronological result))
   \<and> (t_a < t_b \<and> t_b < t_c
        \<and> t_b \<le> t_a + ttl_seconds self * 1000000
        \<and> t_c \<le> t_b + ttl_seconds self * 1000000
        \<and> now \<le> t_c + ttl_seconds self * 1000000
        \<and> round_trips L (new_Message role_a content_a t_a client_a meta_a)
        \<and> round_trips L (new_Message role_b content_b t_b client_b meta_b)
        \<and> round_trips L (new_Message role_c content_c t_c client_c meta_c)
      \<longrightarrow> returned (get_messages
            (self_after (three_appends self L (Connected no_key)
                           t_a role_a content_a client_a meta_a
                           t_b role_b content_b client_b meta_b
                           t_c role_c content_c client_c meta_c))
            L now None (Some (Naive t_b))
            (server_after (three_appends self L (Connected no_key)
                           t_a role_a content_a client_a meta_a
                           t_b role_b content_b client_b meta_b
                           t_c role_c content_c client_c meta_c))) =
          Inr [written_back (new_Message role_b content_b t_b client_b meta_b),
               written_back (new_Message role_c content_c t_c client_c meta_c)])"
proof (intro conjI impI)
  assume h: "readable now r \<and> comparable since (log_messages L now r)
      \<and> chronological (log_messages L now r)"
  let ?found = "filter (at_or_after since) (log_messages L now r)"
  have c: "chronological ?found" using h by (simp add: chronological_filter)
  have "returned (get_messages self L now limit (Some since) (Connected r))
          = Inr (apply_limit limit ?found)"
    using h by (simp add: get_messages_connected admits_comparable)
  moreover have "apply_limit limit ?found =
      (case limit of None \<Rightarrow> ?found
       | Some n \<Rightarrow> if 0 < n then most_recent (nat n) ?found else ?found)"
    by (simp add: apply_limit_def drop_most_recent split: option.splits)
  moreover have "chronological (case limit of None \<Rightarrow> ?found
       | Some n \<Rightarrow> if 0 < n then most_recent (nat n) ?found else ?found)"
    using c by (simp add: chronological_most_recent split: option.splits)
  ultimately show "let found = filter (at_or_after since) (log_messages L now r);
             result = (case limit of
                         None \<Rightarrow> found
                       | Some n \<Rightarrow> if 0 < n then most_recent (nat n) found else found)
         in returned (get_messages self L now limit (Some since) (Connected r)) = Inr result
            \<and> chronological result"
    by (simp add: Let_def)
next
  assume "t_a < t_b \<and> t_b < t_c
        \<and> t_b \<le> t_a + ttl_seconds self * 1000000
        \<and> t_c \<le> t_b + ttl_seconds self * 1000000
        \<and> now \<le> t_c + ttl_seconds self * 1000000
        \<and> round_trips L (new_Message role_a content_a t_a client_a meta_a)
        \<and> round_trips L (new_Message role_b content_b t_b client_b meta_b)
        \<and> round_trips L (new_Message role_c content_c t_c client_c meta_c)"
  then show "returned (get_messages
            (self_after (three_appends self L (Connected no_key)
                           t_a role_a content_a client_a meta_a
                           t_b role_b content_b client_b meta_b
                           t_c role_c content_c client_c meta_c))
            L now None (Some (Naive t_b))
            (server_after (three_appends self L (Connected no_key)
                           t_a role_a content_a client_a meta_a
                           t_b role_b content_b client_b meta_b
                           t_c role_c content_c client_c meta_c))) =
          Inr [written_back (new_Message role_b content_b t_b client_b meta_b),
               written_back (new_Message role_c content_c t_c client_c meta_c)]"
    using read_since_second_of_three by blast
qed

subsection \<open>Reading the example log\<close>

lemma sample_new_round_trips:
  "round_trips sample_pylib (new_Message ''user'' ''hello'' 1 None None)"
  "round_trips sample_pylib (new_Message ''assistant'' ''hi'' 2 None None)"
  "round_trips sample_pylib (new_Message ''user'' ''bye'' 3 None None)"
  using sample_valid(1-3)
  by (simp_all add: round_trips_def sample_new_messages(4-6) [unfolded entry_of_def])
     (simp_all add: new_Message_def to_dict_def optional_str_def
          optional_dict_def sample_pylib_def document_1_def document_2_def document_3_def
          entry_1_def entry_2_def entry_3_def)

lemma sample_ttl:
  "ttl_seconds sample_context = 3600" "ttl_seconds brief_context = 1"
  "ttl_seconds negative_context = - 1"
  by (simp_all add: sample_context_def brief_context_def negative_context_def)

text \<open>
  The theorem at the log of three messages with times 1, 2 and 3, which three appends to the
  empty log leave: reading since 2 with limit 1 gives the third, and reading since 2 after
  the three appends gives the second and the third.
\<close>

theorem get_messages_since_limit_witness:
  "readable 9 three_messages
   \<and> comparable (Naive 2) (log_messages sample_pylib 9 three_messages)
   \<and> chronological (log_messages sample_pylib 9 three_messages)
   \<and> returned (get_messages sample_context sample_pylib 9 (Some 1) (Some (Naive 2))
                 (Connected three_messages)) = Inr [message_3]
   \<and> (1::int) < 2 \<and> (2::int) < 3
   \<and> 2 \<le> 1 + ttl_seconds sample_context * 1000000
   \<and> 3 \<le> 2 + ttl_seconds sample_context * 1000000
   \<and> 9 \<le> 3 + ttl_seconds sample_context * 1000000
   \<and> round_trips sample_pylib (new_Message ''user'' ''hello'' 1 None None)
   \<and> round_trips sample_pylib (new_Message ''assistant'' ''hi'' 2 None None)
   \<and> round_trips sample_pylib (new_Message ''user'' ''bye'' 3 None None)
   \<and> returned (get_messages
        (self_after (three_appends sample_context sample_pylib (Connected no_key)
                       1 ''user'' ''hello'' None None
                       2 ''assistant'' ''hi'' None None
                       3 ''user'' ''bye'' None None))
        sample_pylib 9 None (Some (Naive 2))
        (server_after (three_appends sample_context sample_pylib (Connected no_key)
                       1 ''user'' ''hello'' None None
                       2 ''assistant'' ''hi'' None None
                       3 ''user'' ''bye'' None None)))
     = Inr [message_2, message_3]"
proof -
  have c: "comparable (Naive 2) (log_messages sample_pylib 9 three_messages)"
    by (simp add: sample_log comparable_def sample_timestamps)
  have s: "chronological (log_messages sample_pylib 9 three_messages)"
    by (simp add: sample_log chronological_def sample_timestamps)
  from get_messages_since_limit
         [where self = sample_context and L = sample_pylib and now = 9 and limit = "Some 1"
            and since = "Naive 2" and r = three_messages and t_a = 1 and t_b = 2 and t_c = 3
            and role_a = "''user''" and content_a = "''hello''" and client_a = None and meta_a = None
            and role_b = "''assistant''" and content_b = "''hi''" and client_b = None
            and meta_b = None
            and role_c = "''user''" and content_c = "''bye''" and client_c = None and meta_c = None]
       c s sample_readable(1) sample_new_round_trips
  show ?thesis
    by (simp add: sample_log at_or_after_def sample_timestamps most_recent_def
          sample_new_messages sample_ttl Let_def)
qed

text \<open>
  C5 as stated fails. At limit 0 the most recent 0 entries are none, and \<open>get_messages\<close>
  returns both messages at or after \<open>since\<close>. With an aware \<open>since\<close> and a log of naive
  timestamps every comparison raises \<^verbatim>\<open>TypeError\<close> inside the inner handler, so every
  message is skipped, also the two at or after that instant. On a log that holds the third
  message ahead of the first, the result is in the order of the log, which is not
  chronological. A log with an entry that is not UTF-8 makes the read raise. And after three
  appends through a context with a time to live of one second, a read two seconds later
  finds no message.
\<close>

theorem get_messages_since_counterexample:
  "returned (get_messages sample_context sample_pylib 9 (Some 0) (Some (Naive 2))
               (Connected three_messages)) = Inr [message_2, message_3]
   \<and> most_recent 0 [message_2, message_3] = []
   \<and> returned (get_messages sample_context sample_pylib 9 None (Some (Aware 2))
               (Connected three_messages)) = Inr []
   \<and> returned (get_messages sample_context sample_pylib 9 None (Some (Naive 1))
               (Connected reordered_log)) = Inr [message_3, message_1]
   \<and> \<not> chronological [message_3, message_1]
   \<and> returned (get_messages sample_context sample_pylib 9 None (Some (Naive 2))
               (Connected undecodable_log)) =
       Inl (ContextError
              \<lparr>message = ''Failed to get messages: utf-8 codec can't decode byte: invalid start byte'',
               error_code = ''CONTEXT_ERROR'', timestamp = 9,
               context = Some [(''limit'', JNull), (''error_type'', JStr ''UnicodeDecodeError'')]\<rparr>)
   \<and> server_after (three_appends brief_context sample_pylib (Connected no_key)
                       1 ''user'' ''hello'' None None
                       2 ''assistant'' ''hi'' None None
                       3 ''user'' ''bye'' None None) = Connected three_brief_messages
   \<and> returned (get_messages brief_context sample_pylib 2000000 None (Some (Naive 2))
                 (Connected three_brief_messages)) = Inr []"
proof -
  have t: "server_after (three_appends brief_context sample_pylib (Connected no_key)
                       1 ''user'' ''hello'' None None
                       2 ''assistant'' ''hi'' None None
                       3 ''user'' ''bye'' None None) = Connected three_brief_messages"
    by (simp add: three_appends_leave sample_ttl sample_new_messages three_brief_messages_def)
  show ?thesis
    by (simp add: t get_messages_connected sample_readable sample_log apply_limit_def admits_def
          sample_timestamps most_recent_def chronological_def new_ContextError_def
          limit_json_def)
qed



text \<open>
  An entry of a decodable log that fails to deserialize, whatever the fault, is skipped:
  \<open>get_messages\<close> returns, and what it returns is made of the messages of the entries
  before it and after it, in order.
\<close>

lemma get_messages_skips_unparsable_entry:
  assumes "parse_message L bad = Inl e"
      and "elements (live now r) = earlier @ bad # later"
      and "readable now r"
  shows "returned (get_messages self L now limit since (Connected r)) =
         Inr (apply_limit limit
                (filter (admits since) (stored_messages L earlier @ stored_messages L later)))"
  using assms
  by (simp add: get_messages_connected log_messages_def stored_messages_append
        stored_messages_simps)

text \<open>
  C10 fails on the code at a log whose second entry is the Latin-1 bytes of a word with an
  accent, which are not UTF-8: the client decodes the reply of \<^verbatim>\<open>LRANGE\<close> outside the
  handler that skips an entry, so \<open>get_messages\<close> does not return the first and the third
  message but raises a \<^verbatim>\<open>ContextError\<close>.
\<close>

theorem get_messages_raises_on_undecodable_entry:
  "elements undecodable_log = [entry_1, entry_latin1, entry_3]
   \<and> returned (get_messages sample_context sample_pylib 9 None None
                 (Connected undecodable_log)) =
       Inl (ContextError
              \<lparr>message = ''Failed to get messages: utf-8 codec can't decode byte: invalid start byte'',
               error_code = ''CONTEXT_ERROR'', timestamp = 9,
               context = Some [(''limit'', JNull), (''error_type'', JStr ''UnicodeDecodeError'')]\<rparr>)"
proof -
  have "elements undecodable_log = [entry_1, entry_latin1, entry_3]"
    by (simp add: undecodable_log_def)
  then show ?thesis
    by (simp add: get_messages_connected sample_readable new_ContextError_def limit_json_def)
qed

subsection \<open>Pruning with no other client writing\<close>

lemma concurrent_appends_Nil [simp]: "concurrent_appends self now [] srv = srv"
  by (cases srv) (simp_all add: concurrent_appends_def)

lemma prune_reads_read:
  assumes "prune_reads L now before r"
  shows "returned (get_messages self L now None None (Connected r)) = Inr (log_messages L now r)"
    and "messages_not_before before (log_messages L now r)
           = Inr (filter (at_or_after before) (log_messages L now r))"
  using assms
  by (simp_all add: get_messages_connected prune_reads_def admits_None apply_limit_def
        messages_not_before_comparable)

text \<open>What a prune that no other client interleaves with leaves on the server.\<close>

lemma prune_sequential_state:
  assumes "0 < ttl_seconds self" and "prune_reads L now before r"
  shows "server_after (prune_old_messages self L now before (Connected r)) =
           Connected (if filter (at_or_after before) (log_messages L now r) = [] then no_key
                      else \<lparr>elements = map (entry_of L)
                                          (filter (at_or_after before) (log_messages L now r)),
                            expire_at = Some (now + ttl_seconds self * 1000000)\<rparr>)"
proof -
  let ?kept = "filter (at_or_after before) (log_messages L now r)"
  have p: "r_rpush now (map (\<lambda>msg. json_dumps L (JObj (to_dict L msg))) ?kept) no_key
             = \<lparr>elements = map (entry_of L) ?kept, expire_at = None\<rparr>"
    by (simp add: r_rpush_def entry_of_def no_key_def live_def)
  have e: "?kept \<noteq> [] \<Longrightarrow>
           r_expire now (ttl_seconds self) \<lparr>elements = map (entry_of L) ?kept, expire_at = None\<rparr>
             = \<lparr>elements = map (entry_of L) ?kept,
                expire_at = Some (now + ttl_seconds self * 1000000)\<rparr>"
    using assms(1) by (simp add: r_expire_def live_def)
  show ?thesis
    using prune_reads_read [OF assms(2)] e
    by (simp add: prune_old_messages_def prune_old_messages_interleaved_def get_redis_connected
          Let_def client_delete_def client_rpush_def client_expire_def r_delete_def p)
qed

lemma append_step_nonpositive:
  "ttl \<le> 0 \<Longrightarrow> r_expire now ttl (r_rpush now [entry] k) = no_key"
  by (auto simp: r_expire_def r_rpush_def live_def no_key_def split: option.splits)

lemma appends_fold_nonpositive:
  "ttl \<le> 0
   \<Longrightarrow> foldl (\<lambda>k entry. r_expire now ttl (r_rpush now [entry] k)) k entries
       = (if entries = [] then k else no_key)"
proof (induction entries arbitrary: k)
  case Nil
  then show ?case by simp
next
  case (Cons entry rest)
  then show ?case by (simp add: append_step_nonpositive)
qed

text \<open>With a time to live of zero or less every \<^verbatim>\<open>EXPIRE\<close> deletes the key.\<close>

lemma prune_interleaved_nonpositive_ttl:
  assumes "ttl_seconds self \<le> 0" and "prune_reads L now before r"
  shows "server_after (prune_old_messages_interleaved self L now before after_read
                         after_delete after_push (Connected r)) = Connected no_key"
proof -
  let ?kept = "filter (at_or_after before) (log_messages L now r)"
  let ?es = "map (\<lambda>msg. json_dumps L (JObj (to_dict L msg))) ?kept"
  have p: "r_rpush now ?es no_key = \<lparr>elements = ?es, expire_at = None\<rparr>"
    by (simp add: r_rpush_def no_key_def live_def)
  have e: "?kept \<noteq> [] \<Longrightarrow>
           r_expire now (ttl_seconds self) \<lparr>elements = ?es, expire_at = None\<rparr> = no_key"
    using assms(1) by (simp add: r_expire_def live_def)
  have n: "r_expire now (ttl_seconds self) no_key = no_key"
    by (simp add: r_expire_def)
  show ?thesis
    using prune_reads_read [OF assms(2)] e n
    by (simp add: prune_old_messages_interleaved_def get_redis_connected
          Let_def client_delete_def client_rpush_def client_expire_def r_delete_def p
          concurrent_appends_def appends_fold_nonpositive [OF assms(1)])
qed

text \<open>
  C4, as the code has it. Take a context with a positive time to live, no other client
  writing meanwhile, a server in reach whose log decodes and holds messages stamped with
  datetimes of the kind of \<open>before\<close>, and a library that reads back what it wrote for the
  retained messages. Then \<open>prune_old_messages\<close> returns the number of stored messages with
  a timestamp strictly earlier than \<open>before\<close>; after it the key holds the entries of the
  stored messages with a timestamp at or after \<open>before\<close>, in order, and nothing else; and a
  read that comes no later than the time to live after the prune returns those messages, as
  they were written back.
\<close>

theorem prune_old_messages_removes_older:
  assumes "0 < ttl_seconds self"
      and "prune_reads L now before r"
      and "list_all (round_trips L) (filter (at_or_after before) (log_messages L now r))"
      and "later \<le> now + ttl_seconds self * 1000000"
  shows "returned (prune_old_messages self L now before (Connected r)) =
           Inr (int (length (filter (earlier_than before) (log_messages L now r))))
       \<and> server_elements (server_after (prune_old_messages self L now before (Connected r))) =
           map (entry_of L) (filter (at_or_after before) (log_messages L now r))
       \<and> returned (get_messages (self_after (prune_old_messages self L now before (Connected r)))
                     L later None None
                     (server_after (prune_old_messages self L now before (Connected r)))) =
           Inr (map written_back (filter (at_or_after before) (log_messages L now r)))"
proof (intro conjI)
  let ?kept = "filter (at_or_after before) (log_messages L now r)"
  let ?k = "\<lparr>elements = map (entry_of L) ?kept,
             expire_at = Some (now + ttl_seconds self * 1000000)\<rparr>"
  show "returned (prune_old_messages self L now before (Connected r)) =
           Inr (int (length (filter (earlier_than before) (log_messages L now r))))"
    using prune_interleaved_goes_through(2) [OF assms(1,2)]
    by (simp add: prune_old_messages_def)
  show "server_elements (server_after (prune_old_messages self L now before (Connected r))) =
           map (entry_of L) ?kept"
    by (simp add: prune_sequential_state [OF assms(1,2)] server_elements_def)
  have lv: "live later ?k = ?k" using assms(4) by (simp add: live_def)
  have "readable later ?k = list_all valid_utf8 (elements (live later ?k))"
    by (rule readable_def)
  also have "\<dots> = list_all valid_utf8 (map (entry_of L) ?kept)"
    by (subst lv) simp
  finally have rd: "readable later ?k"
    using assms(3) by (simp add: valid_utf8_entries)
  have "log_messages L later ?k = stored_messages L (elements (live later ?k))"
    by (rule log_messages_def)
  also have "\<dots> = stored_messages L (map (entry_of L) ?kept)"
    by (subst lv) simp
  finally have lg: "log_messages L later ?k = map written_back ?kept"
    using assms(3) by (simp add: stored_messages_entries)
  have rd0: "readable later no_key" by (simp add: readable_def)
  have lg0: "log_messages L later no_key = []"
    by (simp add: log_messages_def stored_messages_simps)
  show "returned (get_messages (self_after (prune_old_messages self L now before (Connected r)))
                     L later None None
                     (server_after (prune_old_messages self L now before (Connected r)))) =
           Inr (map written_back ?kept)"
    using rd lg rd0 lg0
    by (simp add: prune_sequential_state [OF assms(1,2)] get_messages_connected
          admits_None apply_limit_def)
qed

text \<open>
  C3, as the code has it. \<open>prune_old_messages\<close> reads the whole log, deletes the key and
  pushes the retained messages: it takes no high-water mark. When its read and its
  comprehension go through and the time to live is positive, whatever other clients append
  between its read and its \<^verbatim>\<open>DEL\<close> is gone after the call; what they append between its
  \<^verbatim>\<open>DEL\<close> and its \<^verbatim>\<open>RPUSH\<close> stays, ahead of the retained messages, and what they
  append between its \<^verbatim>\<open>RPUSH\<close> and its \<^verbatim>\<open>EXPIRE\<close> stays behind them; the retained
  messages are those that the undisturbed prune keeps, the stored messages with a timestamp
  at or after \<open>before\<close>. With a time to live of zero or less the key is gone after the
  call, and a prune whose read or comprehension raises leaves the key as it was.
\<close>

theorem prune_interleaved_loses_appends_after_read:
  "server_elements (server_after (prune_old_messages_interleaved self L now before after_read
                                    after_delete after_push (Connected r))) =
     (if prune_reads L now before r
      then (if 0 < ttl_seconds self
            then after_delete
                 @ (if server_elements
                         (server_after (prune_old_messages self L now before (Connected r))) = []
                    then []
                    else server_elements
                           (server_after (prune_old_messages self L now before (Connected r)))
                         @ after_push)
            else [])
      else elements r)
   \<and> server_elements (server_after (prune_old_messages self L now before (Connected r))) =
     (if prune_reads L now before r
      then (if 0 < ttl_seconds self
            then map (entry_of L) (filter (at_or_after before) (log_messages L now r))
            else [])
      else elements r)"
proof (cases "prune_reads L now before r")
  case False
  then show ?thesis
    using prune_interleaved_raises(1) [OF False]
    by (simp add: prune_old_messages_def server_elements_def)
next
  case True
  show ?thesis
  proof (cases "0 < ttl_seconds self")
    case pos: True
    show ?thesis
      using True pos prune_interleaved_goes_through(1) [OF pos True]
      by (simp add: prune_old_messages_def Let_def)
  next
    case False
    then have "ttl_seconds self \<le> 0" by simp
    from prune_interleaved_nonpositive_ttl [OF this True] True False
    show ?thesis by (simp add: prune_old_messages_def server_elements_def)
  qed
qed

subsection \<open>Pruning the example log\<close>

lemma sample_prune_reads:
  "prune_reads sample_pylib 9 (Naive 2) three_messages"
  "prune_reads sample_pylib 9 (Naive 4) three_messages"
  "prune_reads sample_pylib 9 (Naive 2) two_messages"
  "prune_reads sample_pylib 9 (Naive 0) unparsable_log"
  "\<not> prune_reads sample_pylib 9 (Aware 2) three_messages"
  "\<not> prune_reads sample_pylib 9 (Naive 2) undecodable_log"
  by (simp_all add: prune_reads_def sample_readable sample_log comparable_def sample_timestamps)

text \<open>
  The theorem at the log of three messages: pruning before 2 removes one message and
  leaves the second and the third; pruning before 4 removes all three and leaves none.
\<close>

theorem prune_old_messages_removes_older_witness:
  "0 < ttl_seconds sample_context
   \<and> prune_reads sample_pylib 9 (Naive 2) three_messages
   \<and> list_all (round_trips sample_pylib)
       (filter (at_or_after (Naive 2)) (log_messages sample_pylib 9 three_messages))
   \<and> 10 \<le> 9 + ttl_seconds sample_context * 1000000
   \<and> returned (prune_old_messages sample_context sample_pylib 9 (Naive 2)
                 (Connected three_messages)) = Inr 1
   \<and> server_elements (server_after (prune_old_messages sample_context sample_pylib 9 (Naive 2)
                                      (Connected three_messages))) = [entry_2, entry_3]
   \<and> returned (get_messages
        (self_after (prune_old_messages sample_context sample_pylib 9 (Naive 2)
                       (Connected three_messages)))
        sample_pylib 10 None None
        (server_after (prune_old_messages sample_context sample_pylib 9 (Naive 2)
                         (Connected three_messages)))) = Inr [message_2, message_3]
   \<and> returned (prune_old_messages sample_context sample_pylib 9 (Naive 4)
                 (Connected three_messages)) = Inr 3
   \<and> returned (get_messages
        (self_after (prune_old_messages sample_context sample_pylib 9 (Naive 4)
                       (Connected three_messages)))
        sample_pylib 10 None None
        (server_after (prune_old_messages sample_context sample_pylib 9 (Naive 4)
                         (Connected three_messages)))) = Inr []"
proof -
  have h: "list_all (round_trips sample_pylib)
       (filter (at_or_after (Naive 2)) (log_messages sample_pylib 9 three_messages))"
    by (simp add: sample_log at_or_after_def sample_timestamps sample_round_trips)
  have k: "list_all (round_trips sample_pylib)
       (filter (at_or_after (Naive 4)) (log_messages sample_pylib 9 three_messages))"
    by (simp add: sample_log at_or_after_def sample_timestamps)
  have p: "0 < ttl_seconds sample_context"
          "10 \<le> 9 + ttl_seconds sample_context * 1000000"
    by (simp_all add: sample_ttl)
  from prune_old_messages_removes_older [OF p(1) sample_prune_reads(1) h p(2)]
       prune_old_messages_removes_older [OF p(1) sample_prune_reads(2) k p(2)]
       h p sample_prune_reads(1)
  show ?thesis
    by (simp add: sample_log at_or_after_def earlier_than_def sample_timestamps
          sample_written_back sample_entry_of)
qed

text \<open>
  C4 as stated fails. On a log of two entries that do not deserialize the prune returns 0
  and both entries are gone. With an aware \<open>before\<close> and a log of naive timestamps the
  comprehension raises \<^verbatim>\<open>TypeError\<close>: the prune raises a \<^verbatim>\<open>ContextError\<close> and removes
  nothing, although one message is earlier than that instant. A log with an entry that is
  not UTF-8 makes the prune raise. And through a context with a negative time to live the
  prune before 2 returns 1 and leaves no message, although two are at or after the cutoff.
\<close>

theorem prune_old_messages_counterexample:
  "elements unparsable_log = [entry_garbage, entry_partial]
   \<and> returned (prune_old_messages sample_context sample_pylib 9 (Naive 0)
                 (Connected unparsable_log)) = Inr 0
   \<and> server_elements (server_after (prune_old_messages sample_context sample_pylib 9 (Naive 0)
                                      (Connected unparsable_log))) = []
   \<and> returned (prune_old_messages sample_context sample_pylib 9 (Aware 2)
                 (Connected three_messages)) =
       Inl (ContextError
              \<lparr>message = ''Failed to prune old messages: can't compare offset-naive and offset-aware datetimes'',
               error_code = ''CONTEXT_ERROR'', timestamp = 9,
               context = Some [(''before'', JStr ''1970-01-01T00:00:00.000002+00:00''),
                               (''error_type'', JStr ''TypeError'')]\<rparr>)
   \<and> server_after (prune_old_messages sample_context sample_pylib 9 (Aware 2)
                     (Connected three_messages)) = Connected three_messages
   \<and> returned (prune_old_messages sample_context sample_pylib 9 (Naive 2)
                 (Connected undecodable_log)) =
       Inl (ContextError
              \<lparr>message = ''Failed to get messages: utf-8 codec can't decode byte: invalid start byte'',
               error_code = ''CONTEXT_ERROR'', timestamp = 9,
               context = Some [(''limit'', JNull), (''error_type'', JStr ''UnicodeDecodeError'')]\<rparr>)
   \<and> returned (prune_old_messages negative_context sample_pylib 9 (Naive 2)
                 (Connected three_messages)) = Inr 1
   \<and> server_elements (server_after (prune_old_messages negative_context sample_pylib 9 (Naive 2)
                                      (Connected three_messages))) = []"
proof (intro conjI)
  show "elements unparsable_log = [entry_garbage, entry_partial]"
    by (simp add: unparsable_log_def)
  have p: "0 < ttl_seconds sample_context" by (simp add: sample_ttl)
  show "returned (prune_old_messages sample_context sample_pylib 9 (Naive 0)
                 (Connected unparsable_log)) = Inr 0"
    using prune_interleaved_goes_through(2) [OF p sample_prune_reads(4)]
    by (simp add: prune_old_messages_def sample_log)
  show "server_elements (server_after (prune_old_messages sample_context sample_pylib 9 (Naive 0)
                                      (Connected unparsable_log))) = []"
    by (simp add: prune_sequential_state [OF p sample_prune_reads(4)] sample_log
          server_elements_def)
  have cmp: "messages_not_before (Aware 2) [message_1, message_2, message_3]
               = Inl (OtherException ''TypeError''
                        ''can't compare offset-naive and offset-aware datetimes'')"
    by (simp add: datetime_ge_def sample_timestamps)
  have rd: "returned (get_messages self sample_pylib 9 None None (Connected three_messages))
              = Inr [message_1, message_2, message_3]" for self
    using admits_None [of "[message_1, message_2, message_3]"]
    by (simp only: get_messages_connected sample_readable sample_log apply_limit_def
          if_True option.case)
  have iso: "isoformat sample_pylib (Aware 2) = ''1970-01-01T00:00:00.000002+00:00''"
    by (simp add: sample_pylib_def)
  show "returned (prune_old_messages sample_context sample_pylib 9 (Aware 2)
                 (Connected three_messages)) =
       Inl (ContextError
              \<lparr>message = ''Failed to prune old messages: can't compare offset-naive and offset-aware datetimes'',
               error_code = ''CONTEXT_ERROR'', timestamp = 9,
               context = Some [(''before'', JStr ''1970-01-01T00:00:00.000002+00:00''),
                               (''error_type'', JStr ''TypeError'')]\<rparr>)"
    using rd
    by (simp add: prune_old_messages_def prune_old_messages_interleaved_def get_redis_connected
          cmp prune_old_messages_except_def new_ContextError_def iso
          del: messages_not_before.simps)
  show "server_after (prune_old_messages sample_context sample_pylib 9 (Aware 2)
                     (Connected three_messages)) = Connected three_messages"
    using prune_interleaved_raises(1) [OF sample_prune_reads(5)]
    by (simp add: prune_old_messages_def)
  show "returned (prune_old_messages sample_context sample_pylib 9 (Naive 2)
                 (Connected undecodable_log)) =
       Inl (ContextError
              \<lparr>message = ''Failed to get messages: utf-8 codec can't decode byte: invalid start byte'',
               error_code = ''CONTEXT_ERROR'', timestamp = 9,
               context = Some [(''limit'', JNull), (''error_type'', JStr ''UnicodeDecodeError'')]\<rparr>)"
    by (simp add: prune_old_messages_def prune_old_messages_interleaved_def get_redis_connected
          get_messages_connected sample_readable
          prune_old_messages_except_def new_ContextError_def limit_json_def)
  have n: "ttl_seconds negative_context \<le> 0" by (simp add: sample_ttl)
  show "returned (prune_old_messages negative_context sample_pylib 9 (Naive 2)
                 (Connected three_messages)) = Inr 1"
    using prune_reads_read [OF sample_prune_reads(1)]
    by (simp add: prune_old_messages_def prune_old_messages_interleaved_def get_redis_connected
          Let_def client_delete_def client_rpush_def client_expire_def sample_log
          at_or_after_def sample_timestamps)
  show "server_elements (server_after (prune_old_messages negative_context sample_pylib 9 (Naive 2)
                                      (Connected three_messages))) = []"
    using prune_interleaved_nonpositive_ttl [OF n sample_prune_reads(1)]
    by (simp add: prune_old_messages_def server_elements_def)
qed

text \<open>
  The theorem at a log of two messages, pruned before 2, with one append after the read,
  one after the \<^verbatim>\<open>DEL\<close> and one after the \<^verbatim>\<open>RPUSH\<close>.
\<close>

theorem prune_interleaved_loses_appends_after_read_witness:
  "server_elements (server_after (prune_old_messages_interleaved sample_context sample_pylib 9
                                    (Naive 2) [entry_3] [entry_1] [entry_garbage]
                                    (Connected two_messages)))
     = [entry_1, entry_2, entry_garbage]"
  using prune_interleaved_loses_appends_after_read
         [of sample_context sample_pylib 9 "Naive 2" "[entry_3]" "[entry_1]" "[entry_garbage]"
             two_messages]
  by (simp add: sample_prune_reads sample_ttl sample_log at_or_after_def sample_timestamps
        sample_entry_of)

text \<open>
  C3 as stated fails: the third message, appended by another client after the read of a
  prune and before its \<^verbatim>\<open>DEL\<close>, is not in the log after the prune, although its timestamp
  is later than the cutoff.
\<close>

theorem prune_interleaved_append_lost_counterexample:
  "server_elements
     (server_after (prune_old_messages_interleaved sample_context sample_pylib 9 (Naive 2)
                      [entry_3] [] [] (Connected two_messages))) = [entry_2]
   \<and> entry_3 \<notin> set [entry_2]"
proof -
  have "entry_3 \<noteq> entry_2" by (simp add: entry_2_def entry_3_def)
  moreover have "0 < ttl_seconds sample_context" by (simp add: sample_ttl)
  ultimately show ?thesis
    using prune_interleaved_goes_through(1)
            [OF \<open>0 < ttl_seconds sample_context\<close> sample_prune_reads(3),
             of "[entry_3]" "[]" "[]"]
    by (simp add: sample_log at_or_after_def sample_timestamps sample_entry_of Let_def)
qed

end
